theory Spec2Isabelle
  imports Complex_Main "HOL-Library.Char_ord" "HOL-Library.List_Lexorder"
begin

section \<open>The timetable store\<close>

text \<open>
  One row of the table \<^verbatim>\<open>timetable\<close> (\<^verbatim>\<open>CREATE TABLE timetable\<close> in
  \<^verbatim>\<open>ensure_schema_migrations\<close>). Every column is kept, under the alias \<^verbatim>\<open>t.\<close> the
  queries use. Columns declared without \<^verbatim>\<open>NOT NULL\<close> are options, \<open>None\<close> being SQL
  \<^verbatim>\<open>NULL\<close>. Dates are the \<^verbatim>\<open>TEXT\<close> values the code stores (\<^verbatim>\<open>'%Y-%m-%d'\<close>); SQLite
  compares them byte by byte, which is the lexicographic order on \<open>string\<close>.
\<close>

record timetable_row =
  t_id :: int
  t_class_id :: "int option"
  t_period :: int
  t_is_double :: int
  t_slot :: int
  t_day :: string
  t_time_range :: "string option"
  t_date :: "string option"
  t_status :: "string option"
  t_subject_id :: "int option"
  t_room :: "string option"
  t_course_id :: "int option"

text \<open>
  A table is the list of its rows in the order a scan yields them. \<^verbatim>\<open>fetchone()\<close> on a
  query without \<^verbatim>\<open>ORDER BY\<close> is the first row of the scan that satisfies the
  \<^verbatim>\<open>WHERE\<close> clause, \<open>find\<close>. The three \<^verbatim>\<open>LEFT JOIN\<close>s of the queries of \<^verbatim>\<open>_handle_home\<close>
  are on primary keys: they add display names to a row and neither drop nor duplicate
  rows, so the result row is modelled by the timetable row itself.
\<close>

section \<open>Schedule pattern\<close>

datatype pattern_slot = Period int string | Break int string

definition SCHEDULE_PATTERN :: "pattern_slot list" where
  "SCHEDULE_PATTERN =
    [Period 1 ''1- 08:00-08:45'',
     Period 2 ''2- 08:45-09:30'',
     Break 25 ''Pause 25min'',
     Period 3 ''3- 09:55-10:40'',
     Period 4 ''4- 10:40-11:25'',
     Break 20 ''Pause 20min'',
     Period 5 ''5- 11:45-12:30'',
     Period 6 ''6- 12:30-13:15'',
     Break 45 ''Pause 45min'',
     Period 8 ''8- 14:00-14:45'',
     Period 9 ''9- 14:45-15:30'']"

text \<open>\<^verbatim>\<open>[slot['period'] for slot in SCHEDULE_PATTERN if 'period' in slot]\<close>\<close>

fun period_list :: "pattern_slot list \<Rightarrow> int list" where
  "period_list [] = []"
| "period_list (Period p l # rest) = p # period_list rest"
| "period_list (Break b l # rest) = period_list rest"

definition day_labels :: "string list" where
  "day_labels = [''Montag'', ''Dienstag'', ''Mittwoch'', ''Donnerstag'', ''Freitag'']"

section \<open>Timetable resolution (\<^verbatim>\<open>_handle_home\<close>)\<close>

text \<open>The \<^verbatim>\<open>WHERE\<close> clauses of the three queries.\<close>

definition where_exact :: "string \<Rightarrow> int \<Rightarrow> timetable_row \<Rightarrow> bool" where
  "where_exact date_str period t \<longleftrightarrow> t_date t = Some date_str \<and> t_period t = period"

definition where_past :: "string \<Rightarrow> string \<Rightarrow> int \<Rightarrow> timetable_row \<Rightarrow> bool" where
  "where_past date_str day_name period t \<longleftrightarrow>
     (case t_date t of None \<Rightarrow> False | Some d \<Rightarrow> d < date_str)
     \<and> t_day t = day_name \<and> t_period t = period"

definition where_template :: "string \<Rightarrow> int \<Rightarrow> timetable_row \<Rightarrow> bool" where
  "where_template day_name period t \<longleftrightarrow>
     t_date t = None \<and> t_day t = day_name \<and> t_period t = period"

text \<open>
  \<^verbatim>\<open>ORDER BY t.date DESC LIMIT 1\<close> over rows whose date is not \<^verbatim>\<open>NULL\<close>: a row of
  greatest date. SQLite does not fix the order among rows of equal date; the model
  keeps the one the scan meets first.
\<close>

definition date_less :: "timetable_row \<Rightarrow> timetable_row \<Rightarrow> bool" where
  "date_less a b \<longleftrightarrow>
     (case (t_date a, t_date b) of (Some x, Some y) \<Rightarrow> x < y | _ \<Rightarrow> False)"

fun order_by_date_desc_limit_1 :: "timetable_row list \<Rightarrow> timetable_row option" where
  "order_by_date_desc_limit_1 [] = None"
| "order_by_date_desc_limit_1 (t # ts) =
     (case order_by_date_desc_limit_1 ts of
        None \<Rightarrow> Some t
      | Some u \<Rightarrow> if date_less t u then Some u else Some t)"

definition query_exact :: "timetable_row list \<Rightarrow> string \<Rightarrow> int \<Rightarrow> timetable_row option" where
  "query_exact tt date_str period = find (where_exact date_str period) tt"

definition query_past ::
  "timetable_row list \<Rightarrow> string \<Rightarrow> string \<Rightarrow> int \<Rightarrow> timetable_row option" where
  "query_past tt date_str day_name period =
     order_by_date_desc_limit_1 (filter (where_past date_str day_name period) tt)"

definition query_template ::
  "timetable_row list \<Rightarrow> string \<Rightarrow> int \<Rightarrow> timetable_row option" where
  "query_template tt day_name period = find (where_template day_name period) tt"

text \<open>
  The first part of the loop body: the three queries, each tried only
  \<^verbatim>\<open>if not row\<close>. A \<^verbatim>\<open>sqlite3.Row\<close> of twelve columns is truthy, so \<^verbatim>\<open>not row\<close> is
  \<open>row = None\<close>.
\<close>

definition own_row ::
  "timetable_row list \<Rightarrow> string \<Rightarrow> string \<Rightarrow> int \<Rightarrow> timetable_row option" where
  "own_row tt date_str day_name period =
     (case query_exact tt date_str period of
        Some row \<Rightarrow> Some row
      | None \<Rightarrow>
          (case query_past tt date_str day_name period of
             Some row \<Rightarrow> Some row
           | None \<Rightarrow> query_template tt day_name period))"

text \<open>
  The dictionary \<^verbatim>\<open>schedule_entries\<close>, keyed by \<^verbatim>\<open>(day_idx, period)\<close>, and the loop
  variable \<^verbatim>\<open>prev_period\<close> are the state of the loop over the pattern.
  \<^verbatim>\<open>prev_row['is_double']\<close> is an integer, truthy when it is not 0.
\<close>

type_synonym schedule_entries = "nat \<times> int \<rightharpoonup> timetable_row"

definition double_period_row ::
  "schedule_entries \<Rightarrow> nat \<Rightarrow> string \<Rightarrow> int option \<Rightarrow> timetable_row option" where
  "double_period_row schedule_entries day_idx day_name prev_period =
     (case prev_period of
        None \<Rightarrow> None
      | Some pp \<Rightarrow>
          (case schedule_entries (day_idx, pp) of
             None \<Rightarrow> None
           | Some prev_row \<Rightarrow>
               if t_is_double prev_row \<noteq> 0 \<and> t_day prev_row = day_name
               then Some prev_row else None))"

definition resolve_period ::
  "timetable_row list \<Rightarrow> string \<Rightarrow> string \<Rightarrow> nat \<Rightarrow>
   schedule_entries \<times> int option \<Rightarrow> int \<Rightarrow> schedule_entries \<times> int option" where
  "resolve_period tt date_str day_name day_idx st period =
     (let schedule_entries = fst st;
          prev_period = snd st;
          row = (case own_row tt date_str day_name period of
                   Some r \<Rightarrow> Some r
                 | None \<Rightarrow> double_period_row schedule_entries day_idx day_name prev_period)
      in (case row of
            Some r \<Rightarrow> (schedule_entries((day_idx, period) \<mapsto> r), Some period)
          | None \<Rightarrow> (schedule_entries, Some period)))"

text \<open>\<^verbatim>\<open>for slot in SCHEDULE_PATTERN\<close>, with \<^verbatim>\<open>continue\<close> on a break.\<close>

fun day_loop ::
  "timetable_row list \<Rightarrow> string \<Rightarrow> string \<Rightarrow> nat \<Rightarrow> pattern_slot list \<Rightarrow>
   schedule_entries \<times> int option \<Rightarrow> schedule_entries \<times> int option" where
  "day_loop tt date_str day_name day_idx [] st = st"
| "day_loop tt date_str day_name day_idx (Break b l # rest) st =
     day_loop tt date_str day_name day_idx rest st"
| "day_loop tt date_str day_name day_idx (Period p l # rest) st =
     day_loop tt date_str day_name day_idx rest
       (resolve_period tt date_str day_name day_idx st p)"

text \<open>
  \<^verbatim>\<open>for day_idx, date_str in enumerate(date_strs)\<close>: \<^verbatim>\<open>prev_period = None\<close> at the start
  of each day. \<^verbatim>\<open>date_strs\<close> has the five dates of the week shown, so
  \<^verbatim>\<open>day_labels[day_idx]\<close> is always in range; the model pairs the two lists.
\<close>

fun week_loop ::
  "timetable_row list \<Rightarrow> pattern_slot list \<Rightarrow> (nat \<times> string \<times> string) list \<Rightarrow>
   schedule_entries \<Rightarrow> schedule_entries" where
  "week_loop tt pat [] schedule_entries = schedule_entries"
| "week_loop tt pat ((day_idx, date_str, day_name) # rest) schedule_entries =
     week_loop tt pat rest
       (fst (day_loop tt date_str day_name day_idx pat (schedule_entries, None)))"

definition handle_home_entries ::
  "timetable_row list \<Rightarrow> pattern_slot list \<Rightarrow> string list \<Rightarrow> schedule_entries" where
  "handle_home_entries tt pat date_strs =
     week_loop tt pat (zip [0..<length date_strs] (zip date_strs day_labels)) Map.empty"

text \<open>
  The slot of one day and period: the loop over the pattern for that day, started as
  each day is (no entry of that day yet, \<^verbatim>\<open>prev_period = None\<close>).
\<close>

definition resolve ::
  "timetable_row list \<Rightarrow> pattern_slot list \<Rightarrow> nat \<Rightarrow> string \<Rightarrow> string \<Rightarrow> int \<Rightarrow>
   timetable_row option" where
  "resolve tt pat day_idx date_str day_name period =
     fst (day_loop tt date_str day_name day_idx pat (Map.empty, None)) (day_idx, period)"

text \<open>
  A row of greatest date among the rows that satisfy the \<^verbatim>\<open>WHERE\<close> clause of the
  second query: what \<^verbatim>\<open>ORDER BY t.date DESC LIMIT 1\<close> may return, whichever way the
  store orders rows of equal date.
\<close>

definition latest_past :: "timetable_row list \<Rightarrow> string \<Rightarrow> string \<Rightarrow> int \<Rightarrow> timetable_row \<Rightarrow> bool" where
  "latest_past tt date_str day_name period t \<longleftrightarrow>
     t \<in> set tt \<and> where_past date_str day_name period t \<and>
     (\<forall>u\<in>set tt. where_past date_str day_name period u \<longrightarrow> \<not> date_less t u)"


section \<open>The database\<close>

text \<open>
  One row of \<^verbatim>\<open>change_log\<close>. The column \<^verbatim>\<open>timestamp\<close>, filled by the store with the
  clock, is left out.
\<close>

record change_log_row =
  l_id :: int
  l_action :: "string option"
  l_table_name :: "string option"
  l_record_id :: "int option"
  l_field_name :: "string option"
  l_old_value :: "string option"
  l_new_value :: "string option"
  l_comment :: "string option"

text \<open>
  The assessment tables. Of \<^verbatim>\<open>performance_queries\<close> only the columns the scoring reads
  are kept. \<^verbatim>\<open>REAL\<close> columns hold Python floats; they are idealised as real numbers, so
  rounding error, infinities and NaN are outside the model. A \<^verbatim>\<open>REAL\<close> column without
  \<^verbatim>\<open>NOT NULL\<close> that the JSON update writes can also hold \<^verbatim>\<open>NULL\<close> or a text SQLite
  could not convert to a number.
\<close>

datatype sql_value = SqlNull | SqlReal real | SqlText string

record performance_query =
  q_id :: int
  q_grade_scale_id :: "int option"

record performance_task =
  k_id :: int
  k_performance_id :: int
  k_number :: int
  k_max_points :: real

record grade_scale =
  s_id :: int
  s_name :: string
  s_definition :: string

record performance_result =
  r_id :: int
  r_performance_id :: int
  r_student_id :: int
  r_op_points :: sql_value
  r_zp_points :: sql_value
  r_grade_override :: "real option"
  r_comment :: "string option"
  r_op_is_edited :: "int option"
  r_zp_is_edited :: "int option"

record performance_task_result =
  x_id :: int
  x_performance_id :: int
  x_student_id :: int
  x_task_number :: int
  x_points :: real
  x_is_edited :: "int option"

text \<open>The tables the modelled handlers read or write, each in scan order.\<close>

record db =
  timetable :: "timetable_row list"
  grade_scales :: "grade_scale list"
  performance_queries :: "performance_query list"
  performance_tasks :: "performance_task list"
  performance_results :: "performance_result list"
  performance_task_results :: "performance_task_result list"
  change_log :: "change_log_row list"

text \<open>
  What a handler sends back: \<^verbatim>\<open>_send_html(html, status)\<close> (the status; the page text
  is left out), \<^verbatim>\<open>_redirect(url)\<close>, \<^verbatim>\<open>_send_json(data, status)\<close>, or the exception that
  leaves the handler (\<^verbatim>\<open>do_POST\<close> answers it with a page of status 500).
\<close>

datatype py_error = ValueError | TypeError | OverflowError

text \<open>
  The dictionary \<^verbatim>\<open>_calculate_student_performance_grade\<close> returns. \<^verbatim>\<open>grade\<close> is the label
  of a band (a string, empty when no band matches) or the stored override (a float).
\<close>

datatype grade_value = GradeLabel string | GradeNumber real

record score =
  total_points :: real
  percentage :: real
  grade :: grade_value

datatype json_body = StatusOk "score option" | StatusError string

datatype response =
  SendHtml nat | Redirect string | SendJson nat json_body | Raised py_error

text \<open>
  \<^verbatim>\<open>data = self._parse_post()\<close> is a dictionary from field names to strings;
  \<^verbatim>\<open>data.get(k)\<close> is \<open>None\<close> for a missing field. \<^verbatim>\<open>not x\<close> holds for \<open>None\<close> and for
  the empty string.
\<close>

type_synonym form = "string \<rightharpoonup> string"

definition falsy :: "string option \<Rightarrow> bool" where
  "falsy x \<longleftrightarrow> (case x of None \<Rightarrow> True | Some s \<Rightarrow> s = [])"

text \<open>
  A new row gets the \<^verbatim>\<open>INTEGER PRIMARY KEY\<close> one above the largest in use (1 in an
  empty table) and is met last by a scan. Row ids are unbounded integers here; SQLite
  picks an unused id at random once the largest is \<open>2^63 - 1\<close>.
\<close>

definition next_rowid :: "int list \<Rightarrow> int" where
  "next_rowid ids = (case ids of [] \<Rightarrow> 1 | x # xs \<Rightarrow> fold max xs x + 1)"

text \<open>
  Binding a Python integer outside the 64-bit range to a statement raises
  \<^verbatim>\<open>OverflowError\<close> in \<^verbatim>\<open>sqlite3\<close>. Python integers are unbounded, so \<^verbatim>\<open>int\<close> of a long
  numeral produces one.
\<close>

definition in_int64 :: "int \<Rightarrow> bool" where
  "in_int64 n \<longleftrightarrow> - (2 ^ 63) \<le> n \<and> n < 2 ^ 63"

section \<open>Lesson status overrides\<close>

text \<open>
  The form field \<^verbatim>\<open>timetable_id\<close> is bound as text to \<^verbatim>\<open>WHERE id=?\<close>. SQLite compares it
  with the integer column after its numeric conversion of the text; that conversion is
  the parameter \<open>sql_int\<close> (\<open>None\<close>: the text equals no integer).
\<close>

definition select_by_id ::
  "(string \<Rightarrow> int option) \<Rightarrow> timetable_row list \<Rightarrow> string \<Rightarrow> timetable_row option" where
  "select_by_id sql_int tt timetable_id = find (\<lambda>t. Some (t_id t) = sql_int timetable_id) tt"

text \<open>
  The \<^verbatim>\<open>WHERE\<close> clause assembled in \<^verbatim>\<open>_post_lesson_update_status\<close>: for each of
  \<^verbatim>\<open>subject_id\<close>, \<^verbatim>\<open>class_id\<close>, \<^verbatim>\<open>course_id\<close> either \<^verbatim>\<open>col = ?\<close> (the template has a
  value; a \<^verbatim>\<open>NULL\<close> column does not match it) or \<^verbatim>\<open>col IS NULL\<close>.
\<close>

definition col_matches :: "'a option \<Rightarrow> 'a option \<Rightarrow> bool" where
  "col_matches template_val col =
     (case template_val of Some v \<Rightarrow> col = Some v | None \<Rightarrow> col = None)"

definition where_override :: "string \<Rightarrow> timetable_row \<Rightarrow> timetable_row \<Rightarrow> bool" where
  "where_override date template_entry t \<longleftrightarrow>
     t_date t = Some date \<and> t_period t = t_period template_entry \<and>
     col_matches (t_subject_id template_entry) (t_subject_id t) \<and>
     col_matches (t_class_id template_entry) (t_class_id t) \<and>
     col_matches (t_course_id template_entry) (t_course_id t)"

text \<open>\<^verbatim>\<open>UPDATE timetable SET status=? WHERE id=?\<close>\<close>

definition update_status :: "string \<Rightarrow> int \<Rightarrow> timetable_row list \<Rightarrow> timetable_row list" where
  "update_status status i tt =
     map (\<lambda>t. if t_id t = i then t\<lparr>t_status := Some status\<rparr> else t) tt"

text \<open>
  \<^verbatim>\<open>INSERT INTO timetable (class_id, course_id, period, is_double, slot, day, time_range,
  date, subject_id, room, status)\<close> with the template's values, the posted date and the
  posted status.
\<close>

definition insert_override ::
  "timetable_row \<Rightarrow> string \<Rightarrow> string \<Rightarrow> timetable_row list \<Rightarrow> timetable_row list" where
  "insert_override template_entry date status tt =
     tt @ [\<lparr>t_id = next_rowid (map t_id tt),
            t_class_id = t_class_id template_entry,
            t_period = t_period template_entry,
            t_is_double = t_is_double template_entry,
            t_slot = t_slot template_entry,
            t_day = t_day template_entry,
            t_time_range = t_time_range template_entry,
            t_date = Some date,
            t_status = Some status,
            t_subject_id = t_subject_id template_entry,
            t_room = t_room template_entry,
            t_course_id = t_course_id template_entry\<rparr>]"

text \<open>
  \<^verbatim>\<open>_post_lesson_update_status\<close>. The form field \<^verbatim>\<open>period\<close> is only checked to be
  present; the period matched is the template's. The answer 404 is sent before the block
  is left, and no statement has written by then. Otherwise the block \<^verbatim>\<open>with conn:\<close>
  holds no statement that can fail on these rows, so it commits.
\<close>

definition post_lesson_update_status ::
  "(string \<Rightarrow> int option) \<Rightarrow> form \<Rightarrow> db \<Rightarrow> response \<times> db" where
  "post_lesson_update_status sql_int data db =
     (let tt = timetable db; date = data ''date''; period = data ''period'';
          timetable_id = data ''timetable_id''; status = data ''status''
      in if falsy date \<or> falsy period \<or> falsy timetable_id \<or> falsy status
         then (SendHtml 400, db)
         else
           (case (date, timetable_id, status) of
              (Some date, Some timetable_id, Some status) \<Rightarrow>
                (case select_by_id sql_int tt timetable_id of
                   None \<Rightarrow>
                     (SendHtml 404, db)
                 | Some template_entry \<Rightarrow>
                     (Redirect (''/?msg=Stunde+am+'' @ date @ ''+aktualisiert''),
                      db\<lparr>timetable :=
                        (case find (where_override date template_entry) tt of
                           Some existing_override \<Rightarrow>
                             update_status status (t_id existing_override) tt
                         | None \<Rightarrow> insert_override template_entry date status tt)\<rparr>))
            | _ \<Rightarrow> (SendHtml 400, db)))"

text \<open>
  \<^verbatim>\<open>_post_lesson_uncancel\<close>:
  \<^verbatim>\<open>DELETE FROM timetable WHERE id = ? AND date IS NOT NULL\<close>, then the redirect, whether
  or not a row was deleted.
\<close>

definition post_lesson_uncancel ::
  "(string \<Rightarrow> int option) \<Rightarrow> form \<Rightarrow> db \<Rightarrow> response \<times> db" where
  "post_lesson_uncancel sql_int data db =
     (case data ''timetable_id'' of
        None \<Rightarrow> (SendHtml 400, db)
      | Some timetable_id \<Rightarrow>
          if timetable_id = [] then (SendHtml 400, db)
          else (Redirect ''/?msg=Ausfall+wurde+rueckgaengig+gemacht.'',
                db\<lparr>timetable :=
                  filter (\<lambda>t. \<not> (Some (t_id t) = sql_int timetable_id \<and> t_date t \<noteq> None))
                    (timetable db)\<rparr>))"

text \<open>
  \<^verbatim>\<open>_log_change\<close>: one row appended to \<^verbatim>\<open>change_log\<close>, in a transaction of its own.
\<close>

definition log_change ::
  "string \<Rightarrow> int option \<Rightarrow> string \<Rightarrow> string \<Rightarrow> string \<Rightarrow> string \<Rightarrow> string option \<Rightarrow>
   db \<Rightarrow> db" where
  "log_change table_name record_id field_name old_value new_value action comment db =
     db\<lparr>change_log := change_log db @
       [\<lparr>l_id = next_rowid (map l_id (change_log db)),
         l_action = Some action, l_table_name = Some table_name, l_record_id = record_id,
         l_field_name = Some field_name, l_old_value = Some old_value,
         l_new_value = Some new_value, l_comment = comment\<rparr>]\<rparr>"

text \<open>
  \<^verbatim>\<open>_post_admin_timetable_delete\<close>, the admin page's deletion of a timetable row:
  \<^verbatim>\<open>int(data.get('id', '0') or '0')\<close> (the parameter \<open>py_int\<close> is Python's \<^verbatim>\<open>int\<close> on a
  string, \<open>None\<close> for \<^verbatim>\<open>ValueError\<close>), the \<^verbatim>\<open>DELETE\<close>, then \<^verbatim>\<open>_log_change\<close>.
\<close>

definition post_admin_timetable_delete ::
  "(string \<Rightarrow> int option) \<Rightarrow> form \<Rightarrow> db \<Rightarrow> response \<times> db" where
  "post_admin_timetable_delete py_int data db =
     (case py_int (case data ''id'' of None \<Rightarrow> ''0'' | Some s \<Rightarrow> if s = [] then ''0'' else s) of
        None \<Rightarrow> (Raised ValueError, db)
      | Some tid \<Rightarrow>
          if tid \<le> 0 then (SendHtml 400, db)
          else if \<not> in_int64 tid then (Raised OverflowError, db)
          else (Redirect ''/admin/timetable'',
                log_change ''timetable'' (Some tid) ''delete'' [] [] ''manual'' None
                  (db\<lparr>timetable := filter (\<lambda>t. t_id t \<noteq> tid) (timetable db)\<rparr>)))"

section \<open>Strings\<close>

text \<open>
  A string is the list of its code points, all below 256 here. \<^verbatim>\<open>str.strip()\<close> removes
  the characters \<^verbatim>\<open>str.isspace\<close> accepts from both ends; \<^verbatim>\<open>str.splitlines()\<close> breaks at
  line feed, carriage return (with a following line feed), vertical tab, form feed, the
  file, group and record separators and next line, and gives no final empty line;
  \<^verbatim>\<open>str.split(sep)\<close> always gives at least one field.
\<close>

definition is_space :: "char \<Rightarrow> bool" where
  "is_space c \<longleftrightarrow> (of_char c :: nat) \<in> {9, 10, 11, 12, 13, 28, 29, 30, 31, 32, 133, 160}"

definition strip :: "string \<Rightarrow> string" where
  "strip s = rev (dropWhile is_space (rev (dropWhile is_space s)))"

definition is_linebreak :: "char \<Rightarrow> bool" where
  "is_linebreak c \<longleftrightarrow> (of_char c :: nat) \<in> {10, 11, 12, 13, 28, 29, 30, 133}"

fun splitlines_from :: "string \<Rightarrow> string \<Rightarrow> string list" where
  "splitlines_from cur [] = (if cur = [] then [] else [cur])"
| "splitlines_from cur [c] =
     (if is_linebreak c then [cur] else [cur @ [c]])"
| "splitlines_from cur (c # d # cs) =
     (if c = CHR 0x0D \<and> d = CHR 0x0A then cur # splitlines_from [] cs
      else if is_linebreak c then cur # splitlines_from [] (d # cs)
      else splitlines_from (cur @ [c]) (d # cs))"

definition splitlines :: "string \<Rightarrow> string list" where
  "splitlines s = splitlines_from [] s"

fun split_on :: "char \<Rightarrow> string \<Rightarrow> string list" where
  "split_on sep [] = [[]]"
| "split_on sep (c # cs) =
     (if c = sep then [] # split_on sep cs
      else (case split_on sep cs of p # ps \<Rightarrow> (c # p) # ps | [] \<Rightarrow> [[c]]))"

section \<open>Grade scales\<close>

text \<open>
  One line of a scale definition, as the loop body in
  \<^verbatim>\<open>_calculate_student_performance_grade\<close> reads it: three fields after \<^verbatim>\<open>split(';')\<close> and
  \<^verbatim>\<open>strip()\<close>, the second and third through \<^verbatim>\<open>float\<close>. The parameter \<open>py_float\<close> is
  Python's \<^verbatim>\<open>float\<close> on a string, \<open>None\<close> where it raises \<^verbatim>\<open>ValueError\<close>; a line with
  another number of fields or a \<^verbatim>\<open>ValueError\<close> adds nothing to \<^verbatim>\<open>scale_def\<close>.
\<close>

type_synonym band = "string \<times> real \<times> real"

definition scale_line :: "(string \<Rightarrow> real option) \<Rightarrow> string \<Rightarrow> band option" where
  "scale_line py_float line =
     (case map strip (split_on CHR '';'' line) of
        [g, mi, ma] \<Rightarrow>
          (case py_float mi of
             None \<Rightarrow> None
           | Some lo \<Rightarrow> (case py_float ma of None \<Rightarrow> None | Some hi \<Rightarrow> Some (g, lo, hi)))
      | _ \<Rightarrow> None)"

fun scale_lines :: "(string \<Rightarrow> real option) \<Rightarrow> string list \<Rightarrow> band list" where
  "scale_lines py_float [] = []"
| "scale_lines py_float (line # rest) =
     (case scale_line py_float line of
        Some b \<Rightarrow> b # scale_lines py_float rest
      | None \<Rightarrow> scale_lines py_float rest)"

definition parse_scale :: "(string \<Rightarrow> real option) \<Rightarrow> string \<Rightarrow> band list" where
  "parse_scale py_float scale_text = scale_lines py_float (splitlines scale_text)"

text \<open>
  \<^verbatim>\<open>for g, mi, ma in scale_def: if pct >= mi and pct < ma: grade = g; break\<close>, from
  \<^verbatim>\<open>grade = ''\<close>.
\<close>

fun find_grade :: "real \<Rightarrow> band list \<Rightarrow> string" where
  "find_grade pct [] = []"
| "find_grade pct ((g, mi, ma) # rest) =
     (if pct \<ge> mi \<and> pct < ma then g else find_grade pct rest)"

section \<open>Scoring (\<^verbatim>\<open>_calculate_student_performance_grade\<close>)\<close>

text \<open>Python's \<^verbatim>\<open>round\<close> of a float to an integer: to the nearest, a tie to the even one.\<close>

definition py_round :: "real \<Rightarrow> int" where
  "py_round x =
     (let f = \<lfloor>x\<rfloor>; d = x - of_int f
      in if d < 1 / 2 then f else if 1 / 2 < d then f + 1 else if even f then f else f + 1)"

text \<open>The queries of the function.\<close>

definition select_performance :: "db \<Rightarrow> int \<Rightarrow> performance_query option" where
  "select_performance db performance_id =
     find (\<lambda>q. q_id q = performance_id) (performance_queries db)"

definition total_max_points :: "db \<Rightarrow> int \<Rightarrow> real" where
  "total_max_points db performance_id =
     sum_list (map k_max_points
       (filter (\<lambda>k. k_performance_id k = performance_id) (performance_tasks db)))"

definition select_scale :: "db \<Rightarrow> int \<Rightarrow> grade_scale option" where
  "select_scale db grade_scale_id = find (\<lambda>s. s_id s = grade_scale_id) (grade_scales db)"

definition select_result :: "db \<Rightarrow> int \<Rightarrow> int \<Rightarrow> performance_result option" where
  "select_result db performance_id student_id =
     find (\<lambda>r. r_performance_id r = performance_id \<and> r_student_id r = student_id)
       (performance_results db)"

definition task_points_sum :: "db \<Rightarrow> int \<Rightarrow> int \<Rightarrow> real" where
  "task_points_sum db performance_id student_id =
     sum_list (map x_points
       (filter (\<lambda>x. x_performance_id x = performance_id \<and> x_student_id x = student_id)
          (performance_task_results db)))"

text \<open>
  The ids are bound to the queries as integers, \<^verbatim>\<open>performance_id\<close> in the first query and
  \<^verbatim>\<open>student_id\<close> in the query of the results; one outside the 64-bit range raises there.
  \<^verbatim>\<open>task_sum + op + zp\<close> raises \<^verbatim>\<open>TypeError\<close> when \<^verbatim>\<open>op\<close> or \<^verbatim>\<open>zp\<close> is \<^verbatim>\<open>None\<close> or a
  string.
\<close>

definition number_of :: "sql_value \<Rightarrow> real option" where
  "number_of v = (case v of SqlReal x \<Rightarrow> Some x | _ \<Rightarrow> None)"

definition calculate_student_performance_grade ::
  "(string \<Rightarrow> real option) \<Rightarrow> db \<Rightarrow> int \<Rightarrow> int \<Rightarrow> py_error + score option" where
  "calculate_student_performance_grade py_float db performance_id student_id =
     (if \<not> in_int64 performance_id then Inl OverflowError
      else case select_performance db performance_id of
        None \<Rightarrow> Inr None
      | Some performance \<Rightarrow>
          (case q_grade_scale_id performance of
             None \<Rightarrow> Inr None
           | Some grade_scale_id \<Rightarrow>
               if grade_scale_id = 0 then Inr None
               else
                 let total_max = total_max_points db performance_id
                 in if total_max = 0 then Inr None
                    else
                      (case select_scale db grade_scale_id of
                         None \<Rightarrow> Inr None
                       | Some scale_row \<Rightarrow>
                           let scale_def = parse_scale py_float (s_definition scale_row)
                           in if scale_def = [] then Inr None
                              else if \<not> in_int64 student_id then Inl OverflowError
                              else
                                let results = select_result db performance_id student_id;
                                    op = (case results of
                                            Some r \<Rightarrow> r_op_points r | None \<Rightarrow> SqlReal 0);
                                    zp = (case results of
                                            Some r \<Rightarrow> r_zp_points r | None \<Rightarrow> SqlReal 0);
                                    override = (case results of
                                            Some r \<Rightarrow> r_grade_override r | None \<Rightarrow> None);
                                    task_sum = task_points_sum db performance_id student_id
                                in (case (number_of op, number_of zp) of
                                      (Some op, Some zp) \<Rightarrow>
                                        let tot = task_sum + op + zp;
                                            tot_rounded = of_int (py_round (tot * 2)) / 2;
                                            pct = tot_rounded / total_max * 100;
                                            grade = find_grade pct scale_def;
                                            final_grade =
                                              (case override of
                                                 Some v \<Rightarrow> GradeNumber v
                                               | None \<Rightarrow> GradeLabel grade)
                                        in Inr (Some \<lparr>total_points = tot_rounded,
                                                      percentage = pct,
                                                      grade = final_grade\<rparr>)
                                    | _ \<Rightarrow> Inl TypeError))))"

section \<open>CSV import (\<^verbatim>\<open>_post_performance_import\<close>)\<close>

definition startswith :: "string \<Rightarrow> string \<Rightarrow> bool" where
  "startswith s p \<longleftrightarrow> take (length p) s = p"














definition task_fields :: "performance_task_result \<Rightarrow> int \<times> int \<times> int \<times> real" where
  "task_fields x = (x_performance_id x, x_student_id x, x_task_number x, x_points x)"




section \<open>Score update (\<^verbatim>\<open>_post_performance_update_student_scores\<close>)\<close>

text \<open>
  The request body is a JSON object; \<^verbatim>\<open>scores\<close> is the list of the items of its object
  of that name, in order, each value null, a number or a string. The two ids are read as
  integers (\<open>None\<close>: missing or null). JSON numbers are real numbers here.
\<close>

datatype json_value = JNull | JNumber real | JString string

record scores_request =
  j_performance_id :: "int option"
  j_student_id :: "int option"
  j_scores :: "(string \<times> json_value) list"

text \<open>
  A value bound to a \<^verbatim>\<open>REAL\<close> column: a text that SQLite reads as a number is stored
  as that number (the parameter \<open>sql_real\<close>), any other text as it is.
\<close>

definition to_sql :: "(string \<Rightarrow> real option) \<Rightarrow> json_value \<Rightarrow> sql_value" where
  "to_sql sql_real v =
     (case v of
        JNull \<Rightarrow> SqlNull
      | JNumber x \<Rightarrow> SqlReal x
      | JString s \<Rightarrow> (case sql_real s of Some x \<Rightarrow> SqlReal x | None \<Rightarrow> SqlText s))"

text \<open>
  \<^verbatim>\<open>UPDATE performance_results SET op_points = ?, op_is_edited = 1 WHERE performance_id = ?
  AND student_id = ?\<close>, and the same for \<^verbatim>\<open>zp_points\<close>.
\<close>

definition update_op_points :: "sql_value \<Rightarrow> int \<Rightarrow> int \<Rightarrow> db \<Rightarrow> db" where
  "update_op_points v performance_id student_id db =
     db\<lparr>performance_results :=
       map (\<lambda>r. if r_performance_id r = performance_id \<and> r_student_id r = student_id
                then r\<lparr>r_op_points := v, r_op_is_edited := Some 1\<rparr> else r)
         (performance_results db)\<rparr>"

definition update_zp_points :: "sql_value \<Rightarrow> int \<Rightarrow> int \<Rightarrow> db \<Rightarrow> db" where
  "update_zp_points v performance_id student_id db =
     db\<lparr>performance_results :=
       map (\<lambda>r. if r_performance_id r = performance_id \<and> r_student_id r = student_id
                then r\<lparr>r_zp_points := v, r_zp_is_edited := Some 1\<rparr> else r)
         (performance_results db)\<rparr>"

text \<open>
  \<^verbatim>\<open>int(key.split('_')[1])\<close>: \<open>None\<close> for \<^verbatim>\<open>ValueError\<close> and \<^verbatim>\<open>IndexError\<close>, both caught.
\<close>

definition task_key_number :: "(string \<Rightarrow> int option) \<Rightarrow> string \<Rightarrow> int option" where
  "task_key_number py_int key =
     (case split_on CHR ''_'' key of _ # p1 # _ \<Rightarrow> py_int p1 | _ \<Rightarrow> None)"

text \<open>\<^verbatim>\<open>float(value)\<close>: \<^verbatim>\<open>TypeError\<close> on \<^verbatim>\<open>None\<close>, which the handler does not catch.\<close>

definition float_of_json :: "(string \<Rightarrow> real option) \<Rightarrow> json_value \<Rightarrow> py_error + real" where
  "float_of_json py_float v =
     (case v of
        JNull \<Rightarrow> Inl TypeError
      | JNumber x \<Rightarrow> Inr x
      | JString s \<Rightarrow> (case py_float s of Some x \<Rightarrow> Inr x | None \<Rightarrow> Inl ValueError))"

text \<open>
  The \<^verbatim>\<open>SELECT id\<close> for the task result, then the \<^verbatim>\<open>UPDATE\<close> of the row found or the
  \<^verbatim>\<open>INSERT\<close> of a new one, both with \<^verbatim>\<open>is_edited = 1\<close>.
\<close>

definition upsert_task_points :: "int \<Rightarrow> int \<Rightarrow> int \<Rightarrow> real \<Rightarrow> db \<Rightarrow> db" where
  "upsert_task_points performance_id student_id task_number points db =
     (case find (\<lambda>x. x_performance_id x = performance_id \<and> x_student_id x = student_id \<and>
                      x_task_number x = task_number) (performance_task_results db) of
        Some existing \<Rightarrow>
          db\<lparr>performance_task_results :=
            map (\<lambda>x. if x_id x = x_id existing
                     then x\<lparr>x_points := points, x_is_edited := Some 1\<rparr> else x)
              (performance_task_results db)\<rparr>
      | None \<Rightarrow>
          db\<lparr>performance_task_results := performance_task_results db @
            [\<lparr>x_id = next_rowid (map x_id (performance_task_results db)),
              x_performance_id = performance_id, x_student_id = student_id,
              x_task_number = task_number, x_points = points, x_is_edited = Some 1\<rparr>]\<rparr>)"

text \<open>\<^verbatim>\<open>for key, value in scores.items()\<close>, inside the transaction.\<close>

fun update_task_scores ::
  "(string \<Rightarrow> int option) \<Rightarrow> (string \<Rightarrow> real option) \<Rightarrow> int \<Rightarrow> int \<Rightarrow>
   (string \<times> json_value) list \<Rightarrow> db \<Rightarrow> py_error + db" where
  "update_task_scores py_int py_float performance_id student_id [] db = Inr db"
| "update_task_scores py_int py_float performance_id student_id ((key, v) # rest) db =
     (if startswith key ''task_'' then
        (case task_key_number py_int key of
           None \<Rightarrow> update_task_scores py_int py_float performance_id student_id rest db
         | Some task_number \<Rightarrow>
             (case float_of_json py_float v of
                Inl ValueError \<Rightarrow>
                  update_task_scores py_int py_float performance_id student_id rest db
              | Inl e \<Rightarrow> Inl e
              | Inr points \<Rightarrow>
                  if \<not> in_int64 performance_id \<or> \<not> in_int64 student_id \<or>
                     \<not> in_int64 task_number
                  then Inl OverflowError
                  else update_task_scores py_int py_float performance_id student_id rest
                         (upsert_task_points performance_id student_id task_number points db)))
      else update_task_scores py_int py_float performance_id student_id rest db)"

text \<open>
  \<^verbatim>\<open>if 'op_points' in scores: cur.execute(...)\<close> and the same for \<^verbatim>\<open>zp_points\<close>; the ids
  are bound as integers.
\<close>

definition set_op_points ::
  "(string \<Rightarrow> real option) \<Rightarrow> int \<Rightarrow> int \<Rightarrow> (string \<times> json_value) list \<Rightarrow> db \<Rightarrow>
   py_error + db" where
  "set_op_points sql_real performance_id student_id scores db =
     (case map_of scores ''op_points'' of
        None \<Rightarrow> Inr db
      | Some v \<Rightarrow>
          if \<not> in_int64 performance_id \<or> \<not> in_int64 student_id then Inl OverflowError
          else Inr (update_op_points (to_sql sql_real v) performance_id student_id db))"

definition set_zp_points ::
  "(string \<Rightarrow> real option) \<Rightarrow> int \<Rightarrow> int \<Rightarrow> (string \<times> json_value) list \<Rightarrow> db \<Rightarrow>
   py_error + db" where
  "set_zp_points sql_real performance_id student_id scores db =
     (case map_of scores ''zp_points'' of
        None \<Rightarrow> Inr db
      | Some v \<Rightarrow>
          if \<not> in_int64 performance_id \<or> \<not> in_int64 student_id then Inl OverflowError
          else Inr (update_zp_points (to_sql sql_real v) performance_id student_id db))"

text \<open>
  The body of \<^verbatim>\<open>with conn:\<close>: the two updates of the supplementary points, the loop, and
  the recomputation of the grade on the updated tables.
\<close>

definition update_scores_block ::
  "(string \<Rightarrow> real option) \<Rightarrow> (string \<Rightarrow> int option) \<Rightarrow> (string \<Rightarrow> real option) \<Rightarrow>
   int \<Rightarrow> int \<Rightarrow> (string \<times> json_value) list \<Rightarrow> db \<Rightarrow> py_error + db \<times> score option" where
  "update_scores_block sql_real py_int py_float performance_id student_id scores db =
     (case set_op_points sql_real performance_id student_id scores db of
        Inl e \<Rightarrow> Inl e
      | Inr db1 \<Rightarrow>
          (case set_zp_points sql_real performance_id student_id scores db1 of
             Inl e \<Rightarrow> Inl e
           | Inr db2 \<Rightarrow>
               (case update_task_scores py_int py_float performance_id student_id scores db2 of
                  Inl e \<Rightarrow> Inl e
                | Inr db3 \<Rightarrow>
                    (case calculate_student_performance_grade py_float db3 performance_id
                            student_id of
                       Inl e \<Rightarrow> Inl e
                     | Inr updated_data \<Rightarrow> Inr (db3, updated_data)))))"

text \<open>
  The handler: \<^verbatim>\<open>not all([performance_id, student_id, scores])\<close> answers 400; an exception
  in the block rolls everything back and leaves the handler; otherwise the block is
  committed and the recomputed grade is sent. No call of \<^verbatim>\<open>_log_change\<close> follows.
\<close>

definition post_performance_update_student_scores ::
  "(string \<Rightarrow> real option) \<Rightarrow> (string \<Rightarrow> int option) \<Rightarrow> (string \<Rightarrow> real option) \<Rightarrow>
   scores_request \<Rightarrow> db \<Rightarrow> response \<times> db" where
  "post_performance_update_student_scores sql_real py_int py_float data db =
     (case (j_performance_id data, j_student_id data) of
        (Some performance_id, Some student_id) \<Rightarrow>
          if performance_id = 0 \<or> student_id = 0 \<or> j_scores data = []
          then (SendJson 400 (StatusError ''Missing data.''), db)
          else
            (case update_scores_block sql_real py_int py_float performance_id student_id
                    (j_scores data) db of
               Inl e \<Rightarrow> (Raised e, db)
             | Inr (db', updated_data) \<Rightarrow> (SendJson 200 (StatusOk updated_data), db'))
      | _ \<Rightarrow> (SendJson 400 (StatusError ''Missing data.''), db))"

section \<open>Example data\<close>

definition example_row :: "int \<Rightarrow> string \<Rightarrow> int \<Rightarrow> int \<Rightarrow> string option \<Rightarrow> timetable_row" where
  "example_row i day_name period dbl d =
     \<lparr>t_id = i, t_class_id = Some 1, t_period = period, t_is_double = dbl, t_slot = period,
      t_day = day_name, t_time_range = None, t_date = d, t_status = None,
      t_subject_id = Some 1, t_room = None, t_course_id = None\<rparr>"

definition example_week :: "timetable_row list" where
  "example_week =
     [example_row 1 ''Montag'' 1 0 None,
      example_row 2 ''Montag'' 1 0 (Some ''2024-01-15''),
      example_row 3 ''Montag'' 2 0 None,
      example_row 4 ''Montag'' 2 0 (Some ''2024-01-01''),
      example_row 5 ''Montag'' 2 0 (Some ''2024-01-08''),
      example_row 6 ''Montag'' 3 1 None,
      example_row 7 ''Montag'' 5 0 None]"

definition example_two_lessons :: "timetable_row list" where
  "example_two_lessons =
     [example_row 1 ''Montag'' 1 1 None,
      example_row 2 ''Montag'' 2 0 None]"

definition example_afternoon :: "timetable_row list" where
  "example_afternoon = [example_row 1 ''Montag'' 6 1 None]"

definition example_interrupted :: "timetable_row list" where
  "example_interrupted =
     [example_row 1 ''Montag'' 1 1 None,
      example_row 2 ''Montag'' 3 0 None]"

text \<open>
  An instance for the conversion parameters at the examples: plain decimal numerals with
  an optional sign, on which Python's \<^verbatim>\<open>int\<close> and SQLite's conversion of a text to an
  integer agree with it.
\<close>

definition digit_of :: "char \<Rightarrow> nat option" where
  "digit_of c = (let n = (of_char c :: nat) in if 48 \<le> n \<and> n \<le> 57 then Some (n - 48) else None)"

fun decimal_nat :: "nat \<Rightarrow> string \<Rightarrow> nat option" where
  "decimal_nat acc [] = Some acc"
| "decimal_nat acc (c # cs) =
     (case digit_of c of None \<Rightarrow> None | Some d \<Rightarrow> decimal_nat (10 * acc + d) cs)"

definition decimal_int :: "string \<Rightarrow> int option" where
  "decimal_int s =
     (case s of
        [] \<Rightarrow> None
      | c # cs \<Rightarrow>
          if c = CHR ''-'' then (if cs = [] then None else map_option (\<lambda>n. - int n) (decimal_nat 0 cs))
          else if c = CHR ''+'' then (if cs = [] then None else map_option int (decimal_nat 0 cs))
          else map_option int (decimal_nat 0 s))"

definition example_db :: db where
  "example_db =
     \<lparr>timetable = [example_row 1 ''Montag'' 1 0 None,
                   example_row 2 ''Montag'' 1 0 (Some ''2024-01-08'')],
      grade_scales = [], performance_queries = [], performance_tasks = [],
      performance_results = [], performance_task_results = [], change_log = []\<rparr>"

definition example_status_form :: form where
  "example_status_form =
     [''date'' \<mapsto> ''2024-01-15'', ''period'' \<mapsto> ''1'', ''timetable_id'' \<mapsto> ''1'',
      ''status'' \<mapsto> ''cancelled'']"

text \<open>
  Likewise for \<^verbatim>\<open>float\<close>: decimal numerals with an optional sign and an optional
  fraction, surrounded by optional white space. Python's \<^verbatim>\<open>float\<close> accepts more (exponents,
  \<^verbatim>\<open>inf\<close>, \<^verbatim>\<open>nan\<close>, underscores); the examples use none of that.
\<close>

definition decimal_real :: "string \<Rightarrow> real option" where
  "decimal_real s =
     (let t = strip s;
          neg = (t \<noteq> [] \<and> hd t = CHR ''-'');
          u = (if t \<noteq> [] \<and> (hd t = CHR ''-'' \<or> hd t = CHR ''+'') then tl t else t);
          ip = takeWhile (\<lambda>c. c \<noteq> CHR ''.'') u;
          fp = drop 1 (dropWhile (\<lambda>c. c \<noteq> CHR ''.'') u)
      in if ip = [] \<and> fp = [] then None
         else (case (decimal_nat 0 ip, decimal_nat 0 fp) of
                 (Some a, Some b) \<Rightarrow>
                   Some ((if neg then - 1 else 1) * (real a + real b / 10 ^ length fp))
               | _ \<Rightarrow> None))"

text \<open>
  The assessment of the scoring example: two tasks of 10 points, a student with 8 and 7
  task points, 2 and 0 supplementary points, and one scale.
\<close>

definition example_scoring_db :: "string \<Rightarrow> real option \<Rightarrow> db" where
  "example_scoring_db scale_text override =
     \<lparr>timetable = [],
      grade_scales = [\<lparr>s_id = 1, s_name = ''Scale'', s_definition = scale_text\<rparr>],
      performance_queries = [\<lparr>q_id = 1, q_grade_scale_id = Some 1\<rparr>],
      performance_tasks =
        [\<lparr>k_id = 1, k_performance_id = 1, k_number = 1, k_max_points = 10\<rparr>,
         \<lparr>k_id = 2, k_performance_id = 1, k_number = 2, k_max_points = 10\<rparr>],
      performance_results =
        [\<lparr>r_id = 1, r_performance_id = 1, r_student_id = 7, r_op_points = SqlReal 2,
          r_zp_points = SqlReal 0, r_grade_override = override, r_comment = None,
          r_op_is_edited = Some 0, r_zp_is_edited = Some 0\<rparr>],
      performance_task_results =
        [\<lparr>x_id = 1, x_performance_id = 1, x_student_id = 7, x_task_number = 1, x_points = 8,
          x_is_edited = Some 0\<rparr>,
         \<lparr>x_id = 2, x_performance_id = 1, x_student_id = 7, x_task_number = 2, x_points = 7,
          x_is_edited = Some 0\<rparr>],
      change_log = []\<rparr>"




text \<open>A score update for the student of the scoring example.\<close>

definition example_scores_request :: scores_request where
  "example_scores_request =
     \<lparr>j_performance_id = Some 1, j_student_id = Some 7,
      j_scores = [(''op_points'', JNumber 3), (''task_1'', JNumber 9)]\<rparr>"

section \<open>Properties of the resolution\<close>

subsection \<open>The loop over the pattern\<close>

lemma day_loop_fold:
  "day_loop tt ds dn di pat st = fold (\<lambda>p st. resolve_period tt ds dn di st p) (period_list pat) st"
  by (induction tt ds dn di pat st rule: day_loop.induct) simp_all

lemma snd_resolve_period: "snd (resolve_period tt ds dn di st p) = Some p"
  by (simp add: resolve_period_def Let_def split: option.splits)

lemma fst_resolve_period_other:
  "k \<noteq> (di, p) \<Longrightarrow> fst (resolve_period tt ds dn di st p) k = fst st k"
  by (simp add: resolve_period_def Let_def split: option.splits)

lemma fst_resolve_period_same:
  "fst (resolve_period tt ds dn di st p) (di, p) =
     (case own_row tt ds dn p of Some r \<Rightarrow> Some r
      | None \<Rightarrow> (case double_period_row (fst st) di dn (snd st) of Some r \<Rightarrow> Some r | None \<Rightarrow> fst st (di, p)))"
  by (simp add: resolve_period_def Let_def split: option.splits)

lemma fold_other:
  "k \<notin> (\<lambda>p. (di, p)) ` set ps \<Longrightarrow>
   fst (fold (\<lambda>p st. resolve_period tt ds dn di st p) ps st) k = fst st k"
  by (induction ps arbitrary: st) (auto simp: fst_resolve_period_other)

lemma snd_fold:
  "snd (fold (\<lambda>p st. resolve_period tt ds dn di st p) ps st) = (if ps = [] then snd st else Some (last ps))"
  by (induction ps arbitrary: st) (auto simp: snd_resolve_period)

lemma resolve_nth:
  assumes d: "distinct (period_list pat)" and i: "i < length (period_list pat)"
  shows "resolve tt pat di ds dn (period_list pat ! i) =
     (case own_row tt ds dn (period_list pat ! i) of
        Some r \<Rightarrow> Some r
      | None \<Rightarrow>
          if i = 0 then None
          else double_period_row
                 (\<lambda>k. if k = (di, period_list pat ! (i - 1))
                      then resolve tt pat di ds dn (period_list pat ! (i - 1)) else None)
                 di dn (Some (period_list pat ! (i - 1))))"
proof -
  define ps where "ps = period_list pat"
  define f where "f = (\<lambda>p st. resolve_period tt ds dn di st p)"
  define st0 :: "schedule_entries \<times> int option" where "st0 = (Map.empty, None)"
  define st1 where "st1 = fold f (take i ps) st0"
  define p where "p = ps ! i"
  have split: "ps = take i ps @ p # drop (Suc i) ps"
    using i unfolding ps_def p_def by (simp add: id_take_nth_drop)
  have dd: "distinct (take i ps @ p # drop (Suc i) ps)"
    using d split unfolding ps_def by simp
  have p_notin_take: "p \<notin> set (take i ps)" and p_notin_drop: "p \<notin> set (drop (Suc i) ps)"
    using dd by auto
  have fin: "fold f ps st0 = fold f (drop (Suc i) ps) (f p st1)"
    by (subst split) (simp add: st1_def)
  have res_p: "resolve tt pat di ds dn p = fst (f p st1) (di, p)"
    unfolding resolve_def day_loop_fold ps_def[symmetric] f_def[symmetric] st0_def[symmetric] fin
    unfolding f_def using p_notin_drop by (intro fold_other) auto
  have st1_p: "fst st1 (di, p) = None"
    unfolding st1_def f_def using p_notin_take
    by (subst fold_other) (auto simp: st0_def)
  have step: "fst (f p st1) (di, p) =
      (case own_row tt ds dn p of Some r \<Rightarrow> Some r
       | None \<Rightarrow> double_period_row (fst st1) di dn (snd st1))"
    unfolding f_def fst_resolve_period_same st1_p by (simp split: option.splits)
  show ?thesis
  proof (cases "i = 0")
    case True
    then have "st1 = st0" by (simp add: st1_def)
    then have "double_period_row (fst st1) di dn (snd st1) = None"
      by (simp add: st0_def double_period_row_def)
    with res_p step True show ?thesis
      unfolding ps_def[symmetric] p_def[symmetric] by (simp split: option.splits)
  next
    case False
    define q where "q = ps ! (i - 1)"
    from False i have ti: "take i ps \<noteq> []" unfolding ps_def by auto
    have lastq: "last (take i ps) = q"
      using False i ti unfolding q_def ps_def
      by (simp add: last_conv_nth min_def)
    have snd1: "snd st1 = Some q"
      unfolding st1_def f_def snd_fold using ti lastq by simp
    have q_in: "q \<in> set (take i ps)" using ti lastq last_in_set by metis
    have q_notin: "q \<notin> set (p # drop (Suc i) ps)" using dd q_in by auto
    have "fold f ps st0 = fold f (p # drop (Suc i) ps) st1"
      by (subst split) (simp add: st1_def)
    then have res_q: "resolve tt pat di ds dn q = fst st1 (di, q)"
      unfolding resolve_def day_loop_fold ps_def[symmetric] f_def[symmetric] st0_def[symmetric]
      unfolding f_def using q_notin by (simp only:) (intro fold_other, auto)
    have "double_period_row (fst st1) di dn (snd st1) =
          double_period_row (\<lambda>k. if k = (di, q) then resolve tt pat di ds dn q else None) di dn (Some q)"
      by (simp add: double_period_row_def snd1 res_q)
    with res_p step False show ?thesis
      unfolding ps_def[symmetric] p_def[symmetric] q_def[symmetric]
      by (simp split: option.splits)
  qed
qed

lemma order_by_None: "order_by_date_desc_limit_1 ts = None \<longleftrightarrow> ts = []"
  by (induction ts) (auto split: option.splits)

lemma date_less_trans: "date_less a b \<Longrightarrow> date_less b c \<Longrightarrow> date_less a c"
  by (auto simp: date_less_def split: option.splits)

lemma date_less_total:
  "t_date a \<noteq> None \<Longrightarrow> t_date b \<noteq> None \<Longrightarrow> \<not> date_less a b \<Longrightarrow> \<not> date_less b c \<Longrightarrow> \<not> date_less a c"
  by (auto simp: date_less_def split: option.splits)

lemma order_by_Some:
  "order_by_date_desc_limit_1 ts = Some u \<Longrightarrow> \<forall>t\<in>set ts. t_date t \<noteq> None \<Longrightarrow>
     u \<in> set ts \<and> (\<forall>t\<in>set ts. \<not> date_less u t)"
proof (induction ts arbitrary: u)
  case Nil
  then show ?case by simp
next
  case (Cons a ts)
  show ?case
  proof (cases "order_by_date_desc_limit_1 ts")
    case None
    then have "ts = []" by (simp add: order_by_None)
    with Cons.prems None show ?thesis by (auto simp: date_less_def split: option.splits)
  next
    case (Some v)
    from Cons.prems(2) have nn: "\<forall>t\<in>set ts. t_date t \<noteq> None" and na: "t_date a \<noteq> None" by auto
    from Cons.IH[OF Some nn] have v: "v \<in> set ts" "\<forall>t\<in>set ts. \<not> date_less v t" by auto
    have nv: "t_date v \<noteq> None" using v(1) nn by auto
    show ?thesis
    proof (cases "date_less a v")
      case True
      with Some Cons.prems(1) have "u = v" by simp
      moreover have "\<not> date_less v a" using True by (auto simp: date_less_def split: option.splits)
      ultimately show ?thesis using v by auto
    next
      case False
      with Some Cons.prems(1) have ua: "u = a" by simp
      have "\<forall>t\<in>set ts. \<not> date_less a t"
        using date_less_total[OF na nv False] v(2) by blast
      moreover have "\<not> date_less a a" by (auto simp: date_less_def split: option.splits)
      ultimately show ?thesis using ua by auto
    qed
  qed
qed

lemma where_past_date: "where_past D W P t \<Longrightarrow> t_date t \<noteq> None"
  by (auto simp: where_past_def split: option.splits)

lemma query_past_None: "query_past tt D W P = None \<longleftrightarrow> (\<forall>t\<in>set tt. \<not> where_past D W P t)"
  by (auto simp: query_past_def order_by_None filter_empty_conv)

lemma query_past_Some: "query_past tt D W P = Some r \<Longrightarrow> latest_past tt D W P r"
proof -
  assume a: "query_past tt D W P = Some r"
  have "\<forall>t\<in>set (filter (where_past D W P) tt). t_date t \<noteq> None"
    by (auto dest: where_past_date)
  from order_by_Some[OF a[unfolded query_past_def] this]
  show ?thesis by (auto simp: latest_past_def)
qed

lemma query_exact_None: "query_exact tt D P = None \<longleftrightarrow> (\<forall>t\<in>set tt. \<not> where_exact D P t)"
  by (auto simp: query_exact_def find_None_iff)

lemma query_exact_Some: "query_exact tt D P = Some r \<Longrightarrow> r \<in> set tt \<and> where_exact D P r"
  by (auto simp: query_exact_def find_Some_iff)

lemma query_template_None: "query_template tt W P = None \<longleftrightarrow> (\<forall>t\<in>set tt. \<not> where_template W P t)"
  by (auto simp: query_template_def find_None_iff)

lemma query_template_Some: "query_template tt W P = Some r \<Longrightarrow> r \<in> set tt \<and> where_template W P r"
  by (auto simp: query_template_def find_Some_iff)

lemma own_row_cases:
  "(if \<exists>t\<in>set tt. where_exact D P t
    then \<exists>t\<in>set tt. own_row tt D W P = Some t \<and> where_exact D P t
    else if \<exists>t\<in>set tt. where_past D W P t
    then \<exists>t. own_row tt D W P = Some t \<and> latest_past tt D W P t
    else if \<exists>t\<in>set tt. where_template W P t
    then \<exists>t\<in>set tt. own_row tt D W P = Some t \<and> where_template W P t
    else own_row tt D W P = None)"
proof -
  consider (e) r where "query_exact tt D P = Some r"
    | (p) r where "query_exact tt D P = None" "query_past tt D W P = Some r"
    | (t) r where "query_exact tt D P = None" "query_past tt D W P = None" "query_template tt W P = Some r"
    | (n) "query_exact tt D P = None" "query_past tt D W P = None" "query_template tt W P = None"
    by (cases "query_exact tt D P"; cases "query_past tt D W P"; cases "query_template tt W P") auto
  then show ?thesis
  proof cases
    case e
    then have "own_row tt D W P = Some r" by (simp add: own_row_def)
    with query_exact_Some[OF e] show ?thesis by auto
  next
    case p
    then have "own_row tt D W P = Some r" by (simp add: own_row_def)
    moreover from p(1) have "\<not> (\<exists>t\<in>set tt. where_exact D P t)" by (simp add: query_exact_None)
    moreover have lp: "latest_past tt D W P r" by (rule query_past_Some[OF p(2)])
    moreover from lp have "\<exists>t\<in>set tt. where_past D W P t" by (auto simp: latest_past_def)
    ultimately show ?thesis by auto
  next
    case t
    then have "own_row tt D W P = Some r" by (simp add: own_row_def)
    moreover from t(1) have "\<not> (\<exists>t\<in>set tt. where_exact D P t)" by (simp add: query_exact_None)
    moreover from t(2) have "\<not> (\<exists>t\<in>set tt. where_past D W P t)" by (simp add: query_past_None)
    moreover note query_template_Some[OF t(3)]
    ultimately show ?thesis by auto
  next
    case n
    then have "own_row tt D W P = None" by (simp add: own_row_def)
    moreover from n(1) have "\<not> (\<exists>t\<in>set tt. where_exact D P t)" by (simp add: query_exact_None)
    moreover from n(2) have "\<not> (\<exists>t\<in>set tt. where_past D W P t)" by (simp add: query_past_None)
    moreover from n(3) have "\<not> (\<exists>t\<in>set tt. where_template W P t)" by (simp add: query_template_None)
    ultimately show ?thesis by auto
  qed
qed

lemma own_row_None:
  "own_row tt D W P = None \<longleftrightarrow>
     \<not> (\<exists>t\<in>set tt. where_exact D P t) \<and> \<not> (\<exists>t\<in>set tt. where_past D W P t) \<and>
     \<not> (\<exists>t\<in>set tt. where_template W P t)"
  using own_row_cases[of tt D P W] by (auto split: if_splits)

lemma own_row_period: "own_row tt D W P = Some r \<Longrightarrow> r \<in> set tt \<and> t_period r = P"
  using own_row_cases[of tt D P W]
  by (auto simp: latest_past_def where_exact_def where_past_def where_template_def split: if_splits)

lemma double_period_row_single:
  "double_period_row (\<lambda>k. if k = (di, q) then x else None) di W (Some q) =
     (case x of None \<Rightarrow> None
      | Some pr \<Rightarrow> if t_is_double pr \<noteq> 0 \<and> t_day pr = W then Some pr else None)"
  by (simp add: double_period_row_def)


lemma resolve_next:
  assumes "distinct (period_list pat)" and "Suc i < length (period_list pat)"
  shows "resolve tt pat di D W (period_list pat ! Suc i) =
     (case own_row tt D W (period_list pat ! Suc i) of
        Some r \<Rightarrow> Some r
      | None \<Rightarrow>
          (case resolve tt pat di D W (period_list pat ! i) of
             None \<Rightarrow> None
           | Some pr \<Rightarrow> if t_is_double pr \<noteq> 0 \<and> t_day pr = W then Some pr else None))"
  using resolve_nth[OF assms, of tt di D W]
  by (simp add: double_period_row_single split: option.splits)

lemma resolve_period_earlier:
  assumes "distinct (period_list pat)"
  shows "i < length (period_list pat) \<Longrightarrow>
         resolve tt pat di D W (period_list pat ! i) = Some r \<Longrightarrow>
         t_period r \<in> set (take (Suc i) (period_list pat))"
proof (induction i arbitrary: r)
  case 0
  from resolve_nth[OF assms 0(1), of tt di D W] 0(2)
  have "own_row tt D W (period_list pat ! 0) = Some r"
    by (simp split: option.splits)
  then have "t_period r = period_list pat ! 0" by (simp add: own_row_period)
  with 0(1) show ?case by (simp add: take_Suc_conv_app_nth)
next
  case (Suc i)
  from Suc.prems(1) have li: "i < length (period_list pat)" by simp
  show ?case
  proof (cases "own_row tt D W (period_list pat ! Suc i)")
    case (Some a)
    with resolve_next[OF assms Suc.prems(1), of tt di D W] Suc.prems(2) have "a = r" by simp
    with Some have "t_period r = period_list pat ! Suc i" by (simp add: own_row_period)
    with Suc.prems(1) show ?thesis by (simp add: take_Suc_conv_app_nth)
  next
    case None
    have "resolve tt pat di D W (period_list pat ! i) = Some r"
    proof (cases "resolve tt pat di D W (period_list pat ! i)")
      case None
      with \<open>own_row tt D W (period_list pat ! Suc i) = None\<close>
        resolve_next[OF assms Suc.prems(1), of tt di D W] Suc.prems(2)
      show ?thesis by simp
    next
      case (Some pr)
      with \<open>own_row tt D W (period_list pat ! Suc i) = None\<close>
        resolve_next[OF assms Suc.prems(1), of tt di D W] Suc.prems(2)
      show ?thesis by (simp split: if_splits)
    qed
    from Suc.IH[OF li this] have "t_period r \<in> set (take (Suc i) (period_list pat))" .
    then show ?thesis using Suc.prems(1) by (simp add: take_Suc_conv_app_nth[of "Suc i"])
  qed
qed

lemmas resolve_eval = resolve_def resolve_period_def own_row_def query_exact_def query_past_def
  query_template_def where_exact_def where_past_def where_template_def double_period_row_def
  date_less_def example_row_def SCHEDULE_PATTERN_def Let_def

subsection \<open>The loop over the week\<close>

text \<open>
  Each day's loop reads and writes only the entries of its own day, so the dictionary
  \<^verbatim>\<open>_handle_home\<close> builds holds, for each day of the week shown, what \<open>resolve\<close> gives
  for that day's date and weekday.
\<close>

lemma day_loop_other_day:
  "d \<noteq> di \<Longrightarrow> fst (day_loop tt ds dn di pat st) (d, p) = fst st (d, p)"
  unfolding day_loop_fold by (rule fold_other) auto

lemma double_period_row_cong:
  "(\<forall>p. e1 (di, p) = e2 (di, p)) \<Longrightarrow>
   double_period_row e1 di dn pv = double_period_row e2 di dn pv"
  by (simp add: double_period_row_def split: option.splits)

lemma resolve_period_cong:
  assumes "\<forall>p. fst st1 (di, p) = fst st2 (di, p)" and "snd st1 = snd st2"
  shows "(\<forall>q. fst (resolve_period tt ds dn di st1 p) (di, q) =
              fst (resolve_period tt ds dn di st2 p) (di, q)) \<and>
         snd (resolve_period tt ds dn di st1 p) = snd (resolve_period tt ds dn di st2 p)"
  using assms double_period_row_cong[OF assms(1), of dn "snd st2"]
  by (auto simp: resolve_period_def Let_def split: option.splits)

lemma fold_day_cong:
  "(\<forall>p. fst st1 (di, p) = fst st2 (di, p)) \<Longrightarrow> snd st1 = snd st2 \<Longrightarrow>
   fst (fold (\<lambda>p st. resolve_period tt ds dn di st p) ps st1) (di, q) =
   fst (fold (\<lambda>p st. resolve_period tt ds dn di st p) ps st2) (di, q)"
proof (induction ps arbitrary: st1 st2)
  case Nil
  then show ?case by simp
next
  case (Cons a ps)
  from resolve_period_cong[OF Cons.prems, of tt ds dn a]
  show ?case by (simp add: Cons.IH)
qed

lemma day_loop_from_empty:
  assumes "\<forall>p. e (di, p) = None"
  shows "fst (day_loop tt ds dn di pat (e, None)) (di, p) = resolve tt pat di ds dn p"
  unfolding resolve_def day_loop_fold
  by (rule fold_day_cong) (simp_all add: assms)

lemma week_loop_other_day:
  "di \<notin> fst ` set days \<Longrightarrow> week_loop tt pat days e (di, p) = e (di, p)"
proof (induction tt pat days e rule: week_loop.induct)
  case (1 tt pat e)
  then show ?case by simp
next
  case (2 tt pat day_idx date_str day_name rest e)
  then have "di \<noteq> day_idx" "di \<notin> fst ` set rest" by auto
  with 2 show ?case by (simp add: day_loop_other_day)
qed

lemma week_loop_day:
  "distinct (map fst days) \<Longrightarrow> (di, ds, dn) \<in> set days \<Longrightarrow>
   \<forall>d\<in>fst ` set days. \<forall>p. e (d, p) = None \<Longrightarrow>
   week_loop tt pat days e (di, p) = resolve tt pat di ds dn p"
proof (induction tt pat days e rule: week_loop.induct)
  case (1 tt pat e)
  then show ?case by simp
next
  case (2 tt pat day_idx date_str day_name rest e)
  let ?e1 = "fst (day_loop tt date_str day_name day_idx pat (e, None))"
  show ?case
  proof (cases "di = day_idx")
    case True
    with "2.prems"(1,2) have eq: "ds = date_str" "dn = day_name" and nin: "di \<notin> fst ` set rest"
      by (auto simp: image_iff)
    have "\<forall>p. e (di, p) = None" using "2.prems"(3) True by simp
    from day_loop_from_empty[OF this]
    show ?thesis using True eq nin by (simp add: week_loop_other_day)
  next
    case False
    with "2.prems"(2) have mem: "(di, ds, dn) \<in> set rest" by simp
    have d: "distinct (map fst rest)" using "2.prems"(1) by simp
    have "\<forall>d\<in>fst ` set rest. \<forall>p. ?e1 (d, p) = None"
    proof (intro ballI allI)
      fix d p assume "d \<in> fst ` set rest"
      with "2.prems"(1) have "d \<noteq> day_idx" by auto
      then have "?e1 (d, p) = e (d, p)" by (simp add: day_loop_other_day)
      with \<open>d \<in> fst ` set rest\<close> "2.prems"(3) show "?e1 (d, p) = None" by auto
    qed
    from "2.IH"[OF d mem this] show ?thesis by simp
  qed
qed

lemma handle_home_entries_resolve:
  assumes "di < length date_strs" and "length date_strs \<le> 5"
  shows "handle_home_entries tt pat date_strs (di, p) =
         resolve tt pat di (date_strs ! di) (day_labels ! di) p"
proof -
  let ?days = "zip [0..<length date_strs] (zip date_strs day_labels)"
  have len: "length day_labels = 5" by (simp add: day_labels_def)
  have l: "length ?days = length date_strs" using assms(2) len by simp
  have m: "map fst ?days = [0..<length date_strs]"
    using assms(2) len by (simp add: map_fst_zip_take)
  have d: "distinct (map fst ?days)" unfolding m by simp
  have "?days ! di = (di, date_strs ! di, day_labels ! di)"
    using assms len by simp
  then have mem: "(di, date_strs ! di, day_labels ! di) \<in> set ?days"
    using assms(1) l by (metis nth_mem)
  show ?thesis
    unfolding handle_home_entries_def
    by (rule week_loop_day[OF d mem]) simp
qed

subsection \<open>Precedence of the four rules\<close>

text \<open>
  Claim C1. For every date \<open>D\<close>, weekday \<open>W\<close> and period \<open>P\<close> of the pattern, the
  slot is the first match in this order: (1) a row with date \<open>D\<close> and period \<open>P\<close>
  (the weekday column is not read); (2) otherwise a row of greatest date among the rows
  with a date before \<open>D\<close>, weekday \<open>W\<close> and period \<open>P\<close>; (3) otherwise a template row
  (no date) with weekday \<open>W\<close> and period \<open>P\<close>; (4) otherwise the row the preceding
  period of the pattern resolved to on that day, when that row is a double period of
  weekday \<open>W\<close>; otherwise the slot is empty.
\<close>

theorem resolve_precedence:
  assumes "distinct (period_list pat)" and "i < length (period_list pat)"
  shows "let P = period_list pat ! i;
             slot = resolve tt pat di D W P;
             prev = (if i = 0 then None else resolve tt pat di D W (period_list pat ! (i - 1)))
         in if \<exists>t\<in>set tt. where_exact D P t
            then \<exists>t\<in>set tt. slot = Some t \<and> where_exact D P t
            else if \<exists>t\<in>set tt. where_past D W P t
            then \<exists>t. slot = Some t \<and> latest_past tt D W P t
            else if \<exists>t\<in>set tt. where_template W P t
            then \<exists>t\<in>set tt. slot = Some t \<and> where_template W P t
            else if \<exists>pr. prev = Some pr \<and> t_is_double pr \<noteq> 0 \<and> t_day pr = W
            then slot = prev
            else slot = None"
proof -
  define P where "P = period_list pat ! i"
  define prev where "prev = (if i = 0 then None else resolve tt pat di D W (period_list pat ! (i - 1)))"
  have r: "resolve tt pat di D W P =
     (case own_row tt D W P of Some r \<Rightarrow> Some r
      | None \<Rightarrow> (case prev of None \<Rightarrow> None
          | Some pr \<Rightarrow> if t_is_double pr \<noteq> 0 \<and> t_day pr = W then Some pr else None))"
    unfolding P_def prev_def resolve_nth[OF assms] double_period_row_single
    by (simp split: option.splits)
  show ?thesis
    unfolding Let_def P_def[symmetric] prev_def[symmetric]
    using own_row_cases[of tt D P W] r
    by (auto split: if_splits option.splits)
qed

theorem resolve_precedence_witness:
  "distinct (period_list SCHEDULE_PATTERN) \<and> 5 < length (period_list SCHEDULE_PATTERN) \<and>
   (\<exists>t\<in>set example_week.
      resolve example_week SCHEDULE_PATTERN 0 ''2024-01-15'' ''Montag'' 1 = Some t \<and>
      where_exact ''2024-01-15'' 1 t) \<and>
   (\<exists>t. resolve example_week SCHEDULE_PATTERN 0 ''2024-01-15'' ''Montag'' 2 = Some t \<and>
      latest_past example_week ''2024-01-15'' ''Montag'' 2 t) \<and>
   (\<exists>t\<in>set example_week.
      resolve example_week SCHEDULE_PATTERN 0 ''2024-01-15'' ''Montag'' 3 = Some t \<and>
      where_template ''Montag'' 3 t) \<and>
   resolve example_week SCHEDULE_PATTERN 0 ''2024-01-15'' ''Montag'' 4 =
     resolve example_week SCHEDULE_PATTERN 0 ''2024-01-15'' ''Montag'' 3 \<and>
   resolve example_week SCHEDULE_PATTERN 0 ''2024-01-15'' ''Montag'' 6 = None"
proof -
  have d: "distinct (period_list SCHEDULE_PATTERN)" by (simp add: SCHEDULE_PATTERN_def)
  have l: "5 < length (period_list SCHEDULE_PATTERN)" by (simp add: SCHEDULE_PATTERN_def)
  have l0: "0 < length (period_list SCHEDULE_PATTERN)"
    and l1: "1 < length (period_list SCHEDULE_PATTERN)"
    and l2: "2 < length (period_list SCHEDULE_PATTERN)"
    and l3: "3 < length (period_list SCHEDULE_PATTERN)"
    by (simp_all add: SCHEDULE_PATTERN_def)
  have n: "period_list SCHEDULE_PATTERN = [1, 2, 3, 4, 5, 6, 8, 9]"
    by (simp add: SCHEDULE_PATTERN_def)
  have r3: "resolve example_week SCHEDULE_PATTERN 0 ''2024-01-15'' ''Montag'' 3
              = Some (example_row 6 ''Montag'' 3 1 None)"
    by (simp add: resolve_eval example_week_def)
  have r5: "resolve example_week SCHEDULE_PATTERN 0 ''2024-01-15'' ''Montag'' 5
              = Some (example_row 7 ''Montag'' 5 0 None)"
    by (simp add: resolve_eval example_week_def)
  have c1: "\<exists>t\<in>set example_week.
      resolve example_week SCHEDULE_PATTERN 0 ''2024-01-15'' ''Montag'' 1 = Some t \<and>
      where_exact ''2024-01-15'' 1 t"
    using resolve_precedence[OF d l0, where tt=example_week and D="''2024-01-15''" and W="''Montag''" and di=0]
    unfolding n by (simp add: where_exact_def example_week_def example_row_def)
  have c2: "\<exists>t. resolve example_week SCHEDULE_PATTERN 0 ''2024-01-15'' ''Montag'' 2 = Some t \<and>
      latest_past example_week ''2024-01-15'' ''Montag'' 2 t"
    using resolve_precedence[OF d l1, where tt=example_week and D="''2024-01-15''" and W="''Montag''" and di=0]
    unfolding n
    by (simp add: where_exact_def where_past_def example_week_def example_row_def)
  have c3: "\<exists>t\<in>set example_week.
      resolve example_week SCHEDULE_PATTERN 0 ''2024-01-15'' ''Montag'' 3 = Some t \<and>
      where_template ''Montag'' 3 t"
    using resolve_precedence[OF d l2, where tt=example_week and D="''2024-01-15''" and W="''Montag''" and di=0]
    unfolding n
    by (simp add: where_exact_def where_past_def where_template_def example_week_def
        example_row_def)
  have no4: "\<not> (\<exists>t\<in>set example_week. where_exact ''2024-01-15'' 4 t)"
    "\<not> (\<exists>t\<in>set example_week. where_past ''2024-01-15'' ''Montag'' 4 t)"
    "\<not> (\<exists>t\<in>set example_week. where_template ''Montag'' 4 t)"
    by (simp_all add: where_exact_def where_past_def where_template_def example_week_def
        example_row_def)
  have no6: "\<not> (\<exists>t\<in>set example_week. where_exact ''2024-01-15'' 6 t)"
    "\<not> (\<exists>t\<in>set example_week. where_past ''2024-01-15'' ''Montag'' 6 t)"
    "\<not> (\<exists>t\<in>set example_week. where_template ''Montag'' 6 t)"
    by (simp_all add: where_exact_def where_past_def where_template_def example_week_def
        example_row_def)
  have c4: "resolve example_week SCHEDULE_PATTERN 0 ''2024-01-15'' ''Montag'' 4 =
     resolve example_week SCHEDULE_PATTERN 0 ''2024-01-15'' ''Montag'' 3"
    using resolve_precedence[OF d l3, where tt=example_week and D="''2024-01-15''" and W="''Montag''" and di=0]
      no4
    by (simp add: n r3 Let_def example_row_def)
  have c6: "resolve example_week SCHEDULE_PATTERN 0 ''2024-01-15'' ''Montag'' 6 = None"
    using resolve_precedence[OF d l, where tt=example_week and D="''2024-01-15''" and W="''Montag''" and di=0]
      no6
    by (simp add: n r5 Let_def example_row_def)
  from d l c1 c2 c3 c4 c6 show ?thesis by blast
qed

subsection \<open>A past override carries forward\<close>



subsection \<open>Double periods\<close>

text \<open>
  Claim C8, as the code has it. Let \<open>P'\<close> be the period that follows \<open>P\<close> in the
  pattern. \<open>P'\<close> yields the row \<open>P\<close> resolved to if and only if \<open>P'\<close> has no row of its
  own under rules 1 to 3 and the row of \<open>P\<close> has \<^verbatim>\<open>is_double\<close> set and weekday \<open>W\<close>;
  in every other case \<open>P'\<close> resolves to its own row, or to nothing, whatever \<open>P\<close>
  resolved to.
\<close>

theorem double_period_inheritance:
  assumes "distinct (period_list pat)" and "Suc i < length (period_list pat)"
  shows "let P = period_list pat ! i;
             P' = period_list pat ! Suc i;
             inherits = (own_row tt D W P' = None \<and>
                (\<exists>pr. resolve tt pat di D W P = Some pr \<and> t_is_double pr \<noteq> 0 \<and> t_day pr = W))
         in ((\<exists>r. resolve tt pat di D W P' = Some r \<and> resolve tt pat di D W P = Some r)
               \<longleftrightarrow> inherits)
            \<and> (\<not> inherits \<longrightarrow> resolve tt pat di D W P' = own_row tt D W P')"
proof -
  define P where "P = period_list pat ! i"
  define P' where "P' = period_list pat ! Suc i"
  note nx = resolve_next[OF assms, of tt di D W, folded P_def P'_def]
  have li: "i < length (period_list pat)" using assms(2) by simp
  have neq: "own_row tt D W P' \<noteq> resolve tt pat di D W P" if "own_row tt D W P' = Some r" for r
  proof
    assume e: "own_row tt D W P' = resolve tt pat di D W P"
    with that have "resolve tt pat di D W P = Some r" by simp
    from resolve_period_earlier[OF assms(1) li this[unfolded P_def]]
    have "t_period r \<in> set (take (Suc i) (period_list pat))" .
    moreover from that have "t_period r = P'" by (simp add: own_row_period)
    ultimately have "period_list pat ! Suc i \<in> set (take (Suc i) (period_list pat))"
      by (simp add: P'_def)
    then obtain k where "k < Suc i" "period_list pat ! k = period_list pat ! Suc i"
      using assms(2) by (auto simp: in_set_conv_nth)
    with assms show False by (auto simp: distinct_conv_nth)
  qed
  show ?thesis
    unfolding Let_def P_def[symmetric] P'_def[symmetric]
    using nx neq by (cases "own_row tt D W P'"; cases "resolve tt pat di D W P") auto
qed

theorem double_period_inheritance_witness:
  "distinct (period_list SCHEDULE_PATTERN) \<and> Suc 5 < length (period_list SCHEDULE_PATTERN) \<and>
   period_list SCHEDULE_PATTERN ! 5 = 6 \<and> period_list SCHEDULE_PATTERN ! Suc 5 = 8 \<and>
   own_row example_afternoon ''2024-01-15'' ''Montag'' 8 = None \<and>
   resolve example_afternoon SCHEDULE_PATTERN 0 ''2024-01-15'' ''Montag'' 8 =
     Some (example_row 1 ''Montag'' 6 1 None) \<and>
   resolve example_afternoon SCHEDULE_PATTERN 0 ''2024-01-15'' ''Montag'' 6 =
     Some (example_row 1 ''Montag'' 6 1 None) \<and>
   resolve example_two_lessons SCHEDULE_PATTERN 0 ''2024-01-15'' ''Montag'' 2 =
     own_row example_two_lessons ''2024-01-15'' ''Montag'' 2"
proof -
  have d: "distinct (period_list SCHEDULE_PATTERN)" by (simp add: SCHEDULE_PATTERN_def)
  have l: "Suc 5 < length (period_list SCHEDULE_PATTERN)" by (simp add: SCHEDULE_PATTERN_def)
  have l0: "Suc 0 < length (period_list SCHEDULE_PATTERN)" by (simp add: SCHEDULE_PATTERN_def)
  have n: "period_list SCHEDULE_PATTERN = [1, 2, 3, 4, 5, 6, 8, 9]"
    by (simp add: SCHEDULE_PATTERN_def)
  have o8: "own_row example_afternoon ''2024-01-15'' ''Montag'' 8 = None"
    by (simp add: resolve_eval example_afternoon_def)
  have r6: "resolve example_afternoon SCHEDULE_PATTERN 0 ''2024-01-15'' ''Montag'' 6 =
     Some (example_row 1 ''Montag'' 6 1 None)"
    by (simp add: resolve_eval example_afternoon_def)
  have o2: "own_row example_two_lessons ''2024-01-15'' ''Montag'' 2 \<noteq> None"
    by (simp add: resolve_eval example_two_lessons_def)
  have a: "resolve example_afternoon SCHEDULE_PATTERN 0 ''2024-01-15'' ''Montag'' 8 =
     Some (example_row 1 ''Montag'' 6 1 None)"
    using double_period_inheritance[OF d l, where tt=example_afternoon
        and D="''2024-01-15''" and W="''Montag''" and di=0] o8
    by (simp add: n r6 Let_def example_row_def)
  have b: "resolve example_two_lessons SCHEDULE_PATTERN 0 ''2024-01-15'' ''Montag'' 2 =
     own_row example_two_lessons ''2024-01-15'' ''Montag'' 2"
    using double_period_inheritance[OF d l0, where tt=example_two_lessons
        and D="''2024-01-15''" and W="''Montag''" and di=0] o2
    by (simp add: n Let_def)
  from d l n o8 a r6 b show ?thesis by simp
qed

text \<open>
  The claim as stated, without the condition that \<open>P'\<close> has no row of its own, fails:
  period 1 resolves to a double period of the weekday, and period 2 still shows its own
  row.
\<close>

theorem double_period_iff_counterexample:
  "resolve example_two_lessons SCHEDULE_PATTERN 0 ''2024-01-15'' ''Montag'' 1 =
     Some (example_row 1 ''Montag'' 1 1 None) \<and>
   t_is_double (example_row 1 ''Montag'' 1 1 None) \<noteq> 0 \<and>
   t_day (example_row 1 ''Montag'' 1 1 None) = ''Montag'' \<and>
   resolve example_two_lessons SCHEDULE_PATTERN 0 ''2024-01-15'' ''Montag'' 2 =
     Some (example_row 2 ''Montag'' 2 0 None) \<and>
   resolve example_two_lessons SCHEDULE_PATTERN 0 ''2024-01-15'' ''Montag'' 2 \<noteq>
     resolve example_two_lessons SCHEDULE_PATTERN 0 ''2024-01-15'' ''Montag'' 1"
  by (simp add: resolve_eval example_two_lessons_def)

text \<open>
  Claim C10, as the code has it. A resolved row with \<^verbatim>\<open>is_double\<close> set and the weekday
  of the day is the slot of each following period of the pattern, across breaks and
  skipped period numbers, as long as no period after it up to that one has a row of its
  own.
\<close>

theorem double_period_chain:
  assumes "distinct (period_list pat)" and "j < length (period_list pat)" and "i < j"
    and "resolve tt pat di D W (period_list pat ! i) = Some r"
    and "t_is_double r \<noteq> 0" and "t_day r = W"
    and "\<forall>k. i < k \<and> k \<le> j \<longrightarrow> own_row tt D W (period_list pat ! k) = None"
  shows "resolve tt pat di D W (period_list pat ! j) = Some r"
  using assms(3,2,7)
proof (induction j)
  case 0
  then show ?case by simp
next
  case (Suc j)
  have own: "own_row tt D W (period_list pat ! Suc j) = None" using Suc.prems by simp
  have prev: "resolve tt pat di D W (period_list pat ! j) = Some r"
  proof (cases "i = j")
    case True
    with assms(4) show ?thesis by simp
  next
    case False
    with Suc.prems have "i < j" "j < length (period_list pat)" by simp_all
    moreover have "\<forall>k. i < k \<and> k \<le> j \<longrightarrow> own_row tt D W (period_list pat ! k) = None"
      using Suc.prems(3) by simp
    ultimately show ?thesis by (rule Suc.IH)
  qed
  from resolve_next[OF assms(1) Suc.prems(2), of tt di D W] own prev assms(5,6)
  show ?case by simp
qed

theorem double_period_chain_witness:
  "distinct (period_list SCHEDULE_PATTERN) \<and> 7 < length (period_list SCHEDULE_PATTERN) \<and>
   period_list SCHEDULE_PATTERN ! 5 = 6 \<and> period_list SCHEDULE_PATTERN ! 6 = 8 \<and>
   period_list SCHEDULE_PATTERN ! 7 = 9 \<and>
   resolve example_afternoon SCHEDULE_PATTERN 0 ''2024-01-15'' ''Montag'' 6 =
     Some (example_row 1 ''Montag'' 6 1 None) \<and>
   resolve example_afternoon SCHEDULE_PATTERN 0 ''2024-01-15'' ''Montag'' 8 =
     Some (example_row 1 ''Montag'' 6 1 None) \<and>
   resolve example_afternoon SCHEDULE_PATTERN 0 ''2024-01-15'' ''Montag'' 9 =
     Some (example_row 1 ''Montag'' 6 1 None)"
proof -
  let ?r = "example_row 1 ''Montag'' 6 1 None"
  have d: "distinct (period_list SCHEDULE_PATTERN)" by (simp add: SCHEDULE_PATTERN_def)
  have l7: "7 < length (period_list SCHEDULE_PATTERN)"
    and l6: "6 < length (period_list SCHEDULE_PATTERN)"
    by (simp_all add: SCHEDULE_PATTERN_def)
  have n: "period_list SCHEDULE_PATTERN = [1, 2, 3, 4, 5, 6, 8, 9]"
    by (simp add: SCHEDULE_PATTERN_def)
  have r6: "resolve example_afternoon SCHEDULE_PATTERN 0 ''2024-01-15'' ''Montag''
              (period_list SCHEDULE_PATTERN ! 5) = Some ?r"
    by (simp add: resolve_eval example_afternoon_def)
  have dbl: "t_is_double ?r \<noteq> 0" and day: "t_day ?r = ''Montag''"
    by (simp_all add: example_row_def)
  have o: "own_row example_afternoon ''2024-01-15'' ''Montag'' 8 = None"
    "own_row example_afternoon ''2024-01-15'' ''Montag'' 9 = None"
    by (simp_all add: resolve_eval example_afternoon_def)
  have k7: "\<forall>k. 5 < k \<and> k \<le> 7 \<longrightarrow>
      own_row example_afternoon ''2024-01-15'' ''Montag'' (period_list SCHEDULE_PATTERN ! k) = None"
  proof (intro allI impI)
    fix k :: nat assume "5 < k \<and> k \<le> 7"
    then have "k = 6 \<or> k = 7" by arith
    then show "own_row example_afternoon ''2024-01-15'' ''Montag''
        (period_list SCHEDULE_PATTERN ! k) = None"
      using o by (auto simp: n)
  qed
  then have k6: "\<forall>k. 5 < k \<and> k \<le> 6 \<longrightarrow>
      own_row example_afternoon ''2024-01-15'' ''Montag'' (period_list SCHEDULE_PATTERN ! k) = None"
    by simp
  have a: "resolve example_afternoon SCHEDULE_PATTERN 0 ''2024-01-15'' ''Montag''
              (period_list SCHEDULE_PATTERN ! 6) = Some ?r"
    by (rule double_period_chain[OF d l6 _ r6 dbl day k6]) simp
  have b: "resolve example_afternoon SCHEDULE_PATTERN 0 ''2024-01-15'' ''Montag''
              (period_list SCHEDULE_PATTERN ! 7) = Some ?r"
    by (rule double_period_chain[OF d l7 _ r6 dbl day k7]) simp
  from d l7 r6 a b show ?thesis by (simp add: n)
qed

text \<open>
  The chain stops at the first period with a row of its own: here period 3 has one
  (not a double period), and period 4, which has none, stays empty although period 1
  resolved to a double period.
\<close>

theorem double_period_chain_counterexample:
  "resolve example_interrupted SCHEDULE_PATTERN 0 ''2024-01-15'' ''Montag'' 1 =
     Some (example_row 1 ''Montag'' 1 1 None) \<and>
   t_is_double (example_row 1 ''Montag'' 1 1 None) \<noteq> 0 \<and>
   t_day (example_row 1 ''Montag'' 1 1 None) = ''Montag'' \<and>
   own_row example_interrupted ''2024-01-15'' ''Montag'' 4 = None \<and>
   resolve example_interrupted SCHEDULE_PATTERN 0 ''2024-01-15'' ''Montag'' 4 = None"
  by (simp add: resolve_eval example_interrupted_def)

section \<open>Properties of the lesson status overrides\<close>

lemma col_matches_eq: "col_matches a b \<longleftrightarrow> b = a"
  by (cases a) (simp_all add: col_matches_def)

lemma where_override_iff:
  "where_override D T t \<longleftrightarrow>
     t_date t = Some D \<and> t_period t = t_period T \<and> t_subject_id t = t_subject_id T \<and>
     t_class_id t = t_class_id T \<and> t_course_id t = t_course_id T"
  by (simp add: where_override_def col_matches_eq)

lemma fold_max_ge: "(y::int) \<le> fold max xs y"
  by (induction xs arbitrary: y) (auto intro: order_trans[OF max.cobounded2])

lemma fold_max_mem: "(x::int) \<in> set xs \<Longrightarrow> x \<le> fold max xs y"
proof (induction xs arbitrary: y)
  case Nil then show ?case by simp
next
  case (Cons a xs)
  show ?case
  proof (cases "x = a")
    case True
    have "a \<le> max a y" by simp
    also have "\<dots> \<le> fold max xs (max a y)" by (rule fold_max_ge)
    finally show ?thesis using True by simp
  next
    case False
    with Cons.prems have "x \<in> set xs" by simp
    from Cons.IH[OF this] show ?thesis by simp
  qed
qed

lemma next_rowid_fresh: "x \<in> set ids \<Longrightarrow> x < next_rowid ids"
proof (cases ids)
  case Nil then show "x \<in> set ids \<Longrightarrow> ?thesis" by simp
next
  case (Cons a as)
  assume "x \<in> set ids"
  with Cons have "x = a \<or> x \<in> set as" by simp
  then have "x \<le> fold max as a" using fold_max_ge[of a as] fold_max_mem[of x as a] by auto
  then show ?thesis by (simp add: next_rowid_def Cons)
qed

lemma find_map_comp: "find P (map f xs) = map_option f (find (P \<circ> f) xs)"
  by (induction xs) simp_all

lemma find_append_cases:
  "find P (xs @ ys) = (case find P xs of Some x \<Rightarrow> Some x | None \<Rightarrow> find P ys)"
  by (induction xs) simp_all

lemma find_mem: "find P xs = Some x \<Longrightarrow> x \<in> set xs \<and> P x"
  by (auto simp: find_Some_iff)

lemma distinct_id_eq:
  "distinct (map t_id tt) \<Longrightarrow> a \<in> set tt \<Longrightarrow> b \<in> set tt \<Longrightarrow> t_id a = t_id b \<longleftrightarrow> a = b"
  by (auto simp: distinct_map inj_on_def)

lemma update_status_row:
  assumes "distinct (map t_id tt)" and "e \<in> set tt"
  shows "update_status st (t_id e) tt = map (\<lambda>t. if t = e then t\<lparr>t_status := Some st\<rparr> else t) tt"
  unfolding update_status_def
  using distinct_id_eq[OF assms(1) _ assms(2)] by (intro map_cong) auto

lemma post_lesson_update_status_found:
  assumes "select_by_id sql_int (timetable db) tid = Some T"
    and "data ''date'' = Some D" and "D \<noteq> []" and "\<not> falsy (data ''period'')"
    and "data ''timetable_id'' = Some tid" and "tid \<noteq> []"
    and "data ''status'' = Some st" and "st \<noteq> []"
  shows "post_lesson_update_status sql_int data db =
     (Redirect (''/?msg=Stunde+am+'' @ D @ ''+aktualisiert''),
      db\<lparr>timetable :=
        (case find (where_override D T) (timetable db) of
           Some e \<Rightarrow> update_status st (t_id e) (timetable db)
         | None \<Rightarrow> insert_override T D st (timetable db))\<rparr>)"
  using assms by (simp add: post_lesson_update_status_def falsy_def Let_def)

lemma where_override_status:
  "where_override D T (t\<lparr>t_status := s\<rparr>) = where_override D T t"
  by (simp add: where_override_def)

lemma set_status_update_case:
  assumes ids: "distinct (map t_id tt)"
    and T: "find (\<lambda>t. Some (t_id t) = k) tt = Some T" and tmpl: "t_date T = None"
    and e: "find (where_override D T) tt = Some e"
    and f_def: "f = (\<lambda>t. if t = e then t\<lparr>t_status := Some st\<rparr> else t)"
  shows "update_status st (t_id e) tt = map f tt"
    and "find (\<lambda>t. Some (t_id t) = k) (map f tt) = Some T"
    and "find (where_override D T) (map f tt) = Some (f e)"
    and "update_status st (t_id (f e)) (map f tt) = map f tt"
    and "T \<in> set (map f tt)"
    and "length (filter (where_override D T) (map f tt)) = length (filter (where_override D T) tt)"
    and "filter (where_override D T) tt \<noteq> []"
proof -
  from find_mem[OF e] have ein: "e \<in> set tt" and ew: "where_override D T e" by auto
  from find_mem[OF T] have Tin: "T \<in> set tt" by auto
  from ew tmpl have Te: "T \<noteq> e" by (auto simp: where_override_def)
  show u: "update_status st (t_id e) tt = map f tt"
    unfolding f_def by (rule update_status_row[OF ids ein])
  have idf: "t_id (f t) = t_id t" for t by (simp add: f_def)
  have wf: "where_override D T (f t) = where_override D T t" for t
    by (simp add: f_def where_override_status)
  have c1: "(\<lambda>t. Some (t_id t) = k) \<circ> f = (\<lambda>t. Some (t_id t) = k)"
    by (rule ext) (simp add: idf)
  have c2: "where_override D T \<circ> f = where_override D T"
    by (rule ext) (simp add: wf)
  show "find (\<lambda>t. Some (t_id t) = k) (map f tt) = Some T"
    unfolding find_map_comp c1 T using Te by (simp add: f_def)
  show "find (where_override D T) (map f tt) = Some (f e)"
    unfolding find_map_comp c2 e by simp
  have "update_status st (t_id (f e)) (map f tt) = map ((\<lambda>t. if t_id t = t_id e then t\<lparr>t_status := Some st\<rparr> else t) \<circ> f) tt"
    by (simp add: update_status_def idf)
  also have "\<dots> = map f tt"
  proof (rule map_cong[OF refl])
    fix t assume t: "t \<in> set tt"
    show "((\<lambda>t. if t_id t = t_id e then t\<lparr>t_status := Some st\<rparr> else t) \<circ> f) t = f t"
      using distinct_id_eq[OF ids t ein] by (simp add: f_def)
  qed
  finally show "update_status st (t_id (f e)) (map f tt) = map f tt" .
  show "T \<in> set (map f tt)"
    using Tin Te by (auto simp: f_def image_iff intro!: bexI[of _ T])
  show "length (filter (where_override D T) (map f tt)) = length (filter (where_override D T) tt)"
    by (simp add: filter_map c2)
  show "filter (where_override D T) tt \<noteq> []"
    using ein ew by (auto simp: filter_empty_conv)
qed

lemma set_status_insert_case:
  assumes T: "find (\<lambda>t. Some (t_id t) = k) tt = Some T"
    and e: "find (where_override D T) tt = None"
    and N_def: "N = T\<lparr>t_id := next_rowid (map t_id tt), t_date := Some D, t_status := Some st\<rparr>"
  shows "insert_override T D st tt = tt @ [N]"
    and "find (\<lambda>t. Some (t_id t) = k) (tt @ [N]) = Some T"
    and "find (where_override D T) (tt @ [N]) = Some N"
    and "update_status st (t_id N) (tt @ [N]) = tt @ [N]"
    and "T \<in> set (tt @ [N])"
    and "length (filter (where_override D T) (tt @ [N])) = 1"
    and "filter (where_override D T) tt = []"
proof -
  show "insert_override T D st tt = tt @ [N]"
    by (simp add: insert_override_def N_def)
  show "find (\<lambda>t. Some (t_id t) = k) (tt @ [N]) = Some T"
    by (simp add: find_append_cases T)
  have wN: "where_override D T N" by (simp add: where_override_iff N_def)
  show "find (where_override D T) (tt @ [N]) = Some N"
    by (simp add: find_append_cases e wN)
  have fresh: "t_id t \<noteq> t_id N" if "t \<in> set tt" for t
    using next_rowid_fresh[of "t_id t" "map t_id tt"] that by (simp add: N_def)
  have "map (\<lambda>t. if t_id t = t_id N then t\<lparr>t_status := Some st\<rparr> else t) tt = map (\<lambda>t. t) tt"
    by (rule map_cong[OF refl]) (simp add: fresh)
  then show "update_status st (t_id N) (tt @ [N]) = tt @ [N]"
    by (simp add: update_status_def N_def)
  show "T \<in> set (tt @ [N])" using find_mem[OF T] by simp
  show none: "filter (where_override D T) tt = []"
    using e by (simp add: find_None_iff filter_empty_conv)
  show "length (filter (where_override D T) (tt @ [N])) = 1"
    by (simp add: none wN)
qed

lemmas lifecycle_eval = example_db_def example_row_def example_status_form_def
  select_by_id_def decimal_int_def digit_of_def falsy_def where_override_def col_matches_def
  update_status_def insert_override_def next_rowid_def Let_def

text \<open>
  Claim C3. For a template slot \<open>T\<close> (looked up by the posted id, its date \<^verbatim>\<open>NULL\<close>) and a
  target date \<open>D\<close>, \<^verbatim>\<open>_post_lesson_update_status\<close> searches a row that agrees with \<open>T\<close> on
  date \<open>D\<close>, period, subject, class and course, \<^verbatim>\<open>NULL\<close> matching \<^verbatim>\<open>NULL\<close>. If there is one, only
  the status of the first such row changes, in place; otherwise one row is appended that
  copies every field of \<open>T\<close> but takes a fresh id, the date \<open>D\<close> and the posted status.
  The template row stays in the table as it was, a second call with the same form
  changes nothing more, and a date without an override row has exactly one afterwards.
  Row ids are distinct, as the primary key makes them.
\<close>

theorem set_status_find_or_create:
  assumes "distinct (map t_id (timetable db))"
    and "select_by_id sql_int (timetable db) tid = Some T" and "t_date T = None"
    and "data ''date'' = Some D" and "D \<noteq> []" and "\<not> falsy (data ''period'')"
    and "data ''timetable_id'' = Some tid" and "tid \<noteq> []"
    and "data ''status'' = Some st" and "st \<noteq> []"
  shows "let res = post_lesson_update_status sql_int data db;
             tt = timetable db; tt' = timetable (snd res)
         in (\<forall>t. where_override D T t \<longleftrightarrow>
                t_date t = Some D \<and> t_period t = t_period T \<and> t_subject_id t = t_subject_id T \<and>
                t_class_id t = t_class_id T \<and> t_course_id t = t_course_id T) \<and>
            (case find (where_override D T) tt of
               Some e \<Rightarrow> tt' = map (\<lambda>t. if t = e then t\<lparr>t_status := Some st\<rparr> else t) tt
             | None \<Rightarrow>
                 tt' = tt @ [T\<lparr>t_id := next_rowid (map t_id tt), t_date := Some D,
                               t_status := Some st\<rparr>]) \<and>
            T \<in> set tt' \<and>
            post_lesson_update_status sql_int data (snd res) = res \<and>
            length (filter (where_override D T) tt') =
              max 1 (length (filter (where_override D T) tt))"
proof -
  note found = post_lesson_update_status_found[OF _ assms(4-10)]
  note sel = assms(2)[unfolded select_by_id_def]
  have Tin: "T \<in> set (timetable db)" using find_mem[OF sel] by simp
  define res where "res = post_lesson_update_status sql_int data db"
  have c1: "\<forall>t. where_override D T t \<longleftrightarrow>
                t_date t = Some D \<and> t_period t = t_period T \<and> t_subject_id t = t_subject_id T \<and>
                t_class_id t = t_class_id T \<and> t_course_id t = t_course_id T"
    by (simp add: where_override_iff)
  have rest: "(case find (where_override D T) (timetable db) of
               Some e \<Rightarrow> timetable (snd res) =
                 map (\<lambda>t. if t = e then t\<lparr>t_status := Some st\<rparr> else t) (timetable db)
             | None \<Rightarrow>
                 timetable (snd res) = timetable db @
                   [T\<lparr>t_id := next_rowid (map t_id (timetable db)), t_date := Some D,
                      t_status := Some st\<rparr>]) \<and>
            T \<in> set (timetable (snd res)) \<and>
            post_lesson_update_status sql_int data (snd res) = res \<and>
            length (filter (where_override D T) (timetable (snd res))) =
              max 1 (length (filter (where_override D T) (timetable db)))"
  proof (cases "find (where_override D T) (timetable db)")
    case None
    define N where "N = T\<lparr>t_id := next_rowid (map t_id (timetable db)), t_date := Some D,
        t_status := Some st\<rparr>"
    note ic = set_status_insert_case[OF sel None N_def]
    have r1: "res = (Redirect (''/?msg=Stunde+am+'' @ D @ ''+aktualisiert''),
         db\<lparr>timetable := timetable db @ [N]\<rparr>)"
      unfolding res_def by (simp add: found[OF assms(2)] None ic(1) N_def)
    have tt': "timetable (snd res) = timetable db @ [N]" by (simp add: r1)
    have sel': "select_by_id sql_int (timetable (snd res)) tid = Some T"
      unfolding tt' select_by_id_def by (rule ic(2))
    have "post_lesson_update_status sql_int data (snd res) =
        (Redirect (''/?msg=Stunde+am+'' @ D @ ''+aktualisiert''),
         (snd res)\<lparr>timetable := update_status st (t_id N) (timetable db @ [N])\<rparr>)"
      unfolding found[OF sel'] tt' ic(3) by simp
    also have "\<dots> = res" unfolding ic(4) by (simp add: r1)
    finally have idem: "post_lesson_update_status sql_int data (snd res) = res" .
    have cnt: "length (filter (where_override D T) (timetable (snd res))) =
              max 1 (length (filter (where_override D T) (timetable db)))"
      unfolding tt' ic(6) ic(7) by simp
    from tt' Tin idem cnt show ?thesis by (simp add: None N_def)
  next
    case (Some e)
    define f where "f = (\<lambda>t. if t = e then t\<lparr>t_status := Some st\<rparr> else t)"
    note uc = set_status_update_case[OF assms(1) sel assms(3) Some f_def]
    have r1: "res = (Redirect (''/?msg=Stunde+am+'' @ D @ ''+aktualisiert''),
         db\<lparr>timetable := map f (timetable db)\<rparr>)"
      unfolding res_def by (simp add: found[OF assms(2)] Some uc(1) f_def)
    have tt': "timetable (snd res) = map f (timetable db)" by (simp add: r1)
    have sel': "select_by_id sql_int (timetable (snd res)) tid = Some T"
      unfolding tt' select_by_id_def by (rule uc(2))
    have "post_lesson_update_status sql_int data (snd res) =
        (Redirect (''/?msg=Stunde+am+'' @ D @ ''+aktualisiert''),
         (snd res)\<lparr>timetable := update_status st (t_id (f e)) (map f (timetable db))\<rparr>)"
      unfolding found[OF sel'] tt' uc(3) by simp
    also have "\<dots> = res" unfolding uc(4) by (simp add: r1)
    finally have idem: "post_lesson_update_status sql_int data (snd res) = res" .
    have "1 \<le> length (filter (where_override D T) (timetable db))"
      using uc(7) by (cases "filter (where_override D T) (timetable db)") simp_all
    then have cnt: "length (filter (where_override D T) (timetable (snd res))) =
              max 1 (length (filter (where_override D T) (timetable db)))"
      unfolding tt' uc(6) by (simp add: max_def)
    have Tin': "T \<in> set (timetable (snd res))" unfolding tt' by (rule uc(5))
    from tt' Tin' idem cnt show ?thesis by (simp add: Some f_def)
  qed
  from c1 rest show ?thesis unfolding Let_def res_def by blast
qed

theorem set_status_find_or_create_witness:
  "distinct (map t_id (timetable example_db)) \<and>
   select_by_id decimal_int (timetable example_db) ''1'' = Some (example_row 1 ''Montag'' 1 0 None) \<and>
   t_date (example_row 1 ''Montag'' 1 0 None) = None \<and>
   example_status_form ''date'' = Some ''2024-01-15'' \<and>
   \<not> falsy (example_status_form ''period'') \<and>
   example_status_form ''timetable_id'' = Some ''1'' \<and>
   example_status_form ''status'' = Some ''cancelled'' \<and>
   find (where_override ''2024-01-15'' (example_row 1 ''Montag'' 1 0 None)) (timetable example_db) = None \<and>
   timetable (snd (post_lesson_update_status decimal_int example_status_form example_db)) =
     timetable example_db @
       [(example_row 3 ''Montag'' 1 0 (Some ''2024-01-15''))\<lparr>t_status := Some ''cancelled''\<rparr>] \<and>
   post_lesson_update_status decimal_int example_status_form
       (snd (post_lesson_update_status decimal_int example_status_form example_db)) =
     post_lesson_update_status decimal_int example_status_form example_db"
proof -
  let ?T = "example_row 1 ''Montag'' 1 0 None"
  have h1: "distinct (map t_id (timetable example_db))" by (simp add: lifecycle_eval)
  have h2: "select_by_id decimal_int (timetable example_db) ''1'' = Some ?T"
    by (simp add: lifecycle_eval)
  have h3: "t_date ?T = None" by (simp add: example_row_def)
  have h4: "example_status_form ''date'' = Some ''2024-01-15''" by (simp add: lifecycle_eval)
  have h5: "''2024-01-15'' \<noteq> []" by simp
  have h6: "\<not> falsy (example_status_form ''period'')" by (simp add: lifecycle_eval)
  have h7: "example_status_form ''timetable_id'' = Some ''1''" by (simp add: lifecycle_eval)
  have h8: "''1'' \<noteq> []" by simp
  have h9: "example_status_form ''status'' = Some ''cancelled''" by (simp add: lifecycle_eval)
  have h10: "''cancelled'' \<noteq> []" by simp
  have none: "find (where_override ''2024-01-15'' ?T) (timetable example_db) = None"
    by (simp add: lifecycle_eval)
  have new: "?T\<lparr>t_id := next_rowid (map t_id (timetable example_db)),
                t_date := Some ''2024-01-15'', t_status := Some ''cancelled''\<rparr> =
             (example_row 3 ''Montag'' 1 0 (Some ''2024-01-15''))\<lparr>t_status := Some ''cancelled''\<rparr>"
    by (simp add: lifecycle_eval)
  from set_status_find_or_create[OF h1 h2 h3 h4 h5 h6 h7 h8 h9 h10]
  have "timetable (snd (post_lesson_update_status decimal_int example_status_form example_db)) =
     timetable example_db @
       [(example_row 3 ''Montag'' 1 0 (Some ''2024-01-15''))\<lparr>t_status := Some ''cancelled''\<rparr>]"
    and "post_lesson_update_status decimal_int example_status_form
       (snd (post_lesson_update_status decimal_int example_status_form example_db)) =
     post_lesson_update_status decimal_int example_status_form example_db"
    unfolding Let_def none new[symmetric] by simp_all
  with h1 h2 h3 h4 h6 h7 h9 none show ?thesis by simp
qed

text \<open>
  Claim C4, as the code has it. \<^verbatim>\<open>_post_lesson_uncancel\<close> deletes exactly the rows with the
  posted id whose date is not \<^verbatim>\<open>NULL\<close>; every template row stays. Called with the id of a
  template row it deletes nothing, leaves the database as it was, and answers with the
  same redirect as after a deletion: there is no rejection.
\<close>

theorem uncancel_deletes_only_overrides:
  assumes "data ''timetable_id'' = Some tid" and "tid \<noteq> []"
  shows "let res = post_lesson_uncancel sql_int data db
         in fst res = Redirect ''/?msg=Ausfall+wurde+rueckgaengig+gemacht.'' \<and>
            timetable (snd res) =
              filter (\<lambda>t. \<not> (Some (t_id t) = sql_int tid \<and> t_date t \<noteq> None)) (timetable db) \<and>
            (\<forall>t\<in>set (timetable db). t_date t = None \<longrightarrow> t \<in> set (timetable (snd res))) \<and>
            (\<forall>t\<in>set (timetable db). t \<notin> set (timetable (snd res)) \<longrightarrow>
               t_date t \<noteq> None \<and> Some (t_id t) = sql_int tid) \<and>
            ((\<forall>t\<in>set (timetable db). Some (t_id t) = sql_int tid \<longrightarrow> t_date t = None) \<longrightarrow>
               snd res = db)"
proof -
  have r: "post_lesson_uncancel sql_int data db =
      (Redirect ''/?msg=Ausfall+wurde+rueckgaengig+gemacht.'',
       db\<lparr>timetable :=
          filter (\<lambda>t. \<not> (Some (t_id t) = sql_int tid \<and> t_date t \<noteq> None)) (timetable db)\<rparr>)"
    using assms by (simp add: post_lesson_uncancel_def)
  have same: "filter (\<lambda>t. \<not> (Some (t_id t) = sql_int tid \<and> t_date t \<noteq> None)) (timetable db)
                = timetable db"
    if "\<forall>t\<in>set (timetable db). Some (t_id t) = sql_int tid \<longrightarrow> t_date t = None"
    using that by (intro filter_True) auto
  show ?thesis
    unfolding Let_def r using same by auto
qed

theorem uncancel_deletes_only_overrides_witness:
  "[''timetable_id'' \<mapsto> ''2''] ''timetable_id'' = Some ''2'' \<and> ''2'' \<noteq> [] \<and>
   timetable (snd (post_lesson_uncancel decimal_int [''timetable_id'' \<mapsto> ''2''] example_db)) =
     [example_row 1 ''Montag'' 1 0 None] \<and>
   [''timetable_id'' \<mapsto> ''1''] ''timetable_id'' = Some ''1'' \<and> ''1'' \<noteq> [] \<and>
   select_by_id decimal_int (timetable example_db) ''1'' = Some (example_row 1 ''Montag'' 1 0 None) \<and>
   t_date (example_row 1 ''Montag'' 1 0 None) = None \<and>
   snd (post_lesson_uncancel decimal_int [''timetable_id'' \<mapsto> ''1''] example_db) = example_db"
proof -
  have a: "timetable (snd (post_lesson_uncancel decimal_int [''timetable_id'' \<mapsto> ''2''] example_db)) =
     [example_row 1 ''Montag'' 1 0 None]"
    using uncancel_deletes_only_overrides[of "[''timetable_id'' \<mapsto> ''2'']" "''2''" decimal_int
        example_db]
    by (simp add: lifecycle_eval)
  have t: "\<forall>t\<in>set (timetable example_db). Some (t_id t) = decimal_int ''1'' \<longrightarrow> t_date t = None"
    by (simp add: lifecycle_eval)
  have b: "snd (post_lesson_uncancel decimal_int [''timetable_id'' \<mapsto> ''1''] example_db) = example_db"
    using uncancel_deletes_only_overrides[of "[''timetable_id'' \<mapsto> ''1'']" "''1''" decimal_int
        example_db] t
    by (simp add: Let_def)
  have s: "select_by_id decimal_int (timetable example_db) ''1'' =
      Some (example_row 1 ''Montag'' 1 0 None)"
    "t_date (example_row 1 ''Montag'' 1 0 None) = None"
    by (simp_all add: lifecycle_eval)
  from a s b show ?thesis by simp
qed

text \<open>
  The claim as stated asks for an explicit failure on the id of a template row. Row 1
  is a template; the call leaves the database unchanged and sends the redirect that the
  deletion of override row 2 sends.
\<close>

theorem uncancel_template_counterexample:
  "select_by_id decimal_int (timetable example_db) ''1'' = Some (example_row 1 ''Montag'' 1 0 None) \<and>
   t_date (example_row 1 ''Montag'' 1 0 None) = None \<and>
   post_lesson_uncancel decimal_int [''timetable_id'' \<mapsto> ''1''] example_db =
     (Redirect ''/?msg=Ausfall+wurde+rueckgaengig+gemacht.'', example_db) \<and>
   fst (post_lesson_uncancel decimal_int [''timetable_id'' \<mapsto> ''2''] example_db) =
     Redirect ''/?msg=Ausfall+wurde+rueckgaengig+gemacht.''"
  by (simp add: post_lesson_uncancel_def lifecycle_eval)

section \<open>Properties of the scoring\<close>

lemmas str_eval = decimal_real_def decimal_nat.simps digit_of_def strip_def is_space_def
  splitlines_def is_linebreak_def scale_line_def parse_scale_def Let_def



lemma scale_lines_filter:
  "scale_lines pf lns = map the (filter (\<lambda>b. b \<noteq> None) (map (scale_line pf) lns))"
  by (induction lns) (simp_all split: option.splits)

lemma scale_line_None:
  "scale_line pf line = None \<longleftrightarrow>
     (length (split_on CHR '';'' line) \<noteq> 3 \<or>
      pf (strip (split_on CHR '';'' line ! 1)) = None \<or>
      pf (strip (split_on CHR '';'' line ! 2)) = None)"
proof (cases "length (split_on CHR '';'' line) = 3")
  case True
  then obtain a b c where e: "split_on CHR '';'' line = [a, b, c]"
    by (auto simp: length_Suc_conv numeral_3_eq_3)
  show ?thesis by (simp add: scale_line_def e split: option.splits)
next
  case False
  then have "scale_line pf line = None"
    by (auto simp: scale_line_def split: list.splits)
  with False show ?thesis by simp
qed

lemmas scoring_eval = example_scoring_db_def select_performance_def total_max_points_def
  select_scale_def select_result_def task_points_sum_def number_of_def

lemma calculate_no_scale:
  "in_int64 pid \<Longrightarrow> select_performance db pid = None \<Longrightarrow>
     calculate_student_performance_grade pf db pid sid = Inr None"
  "in_int64 pid \<Longrightarrow> select_performance db pid = Some q \<Longrightarrow>
     q_grade_scale_id q = None \<or> q_grade_scale_id q = Some 0 \<Longrightarrow>
     calculate_student_performance_grade pf db pid sid = Inr None"
  by (auto simp: calculate_student_performance_grade_def)

lemma calculate_zero_max:
  "in_int64 pid \<Longrightarrow> total_max_points db pid = 0 \<Longrightarrow> calculate_student_performance_grade pf db pid sid = Inr None"
  by (simp add: calculate_student_performance_grade_def split: option.splits)

lemma calculate_no_bands:
  "in_int64 pid \<Longrightarrow> select_performance db pid = Some q \<Longrightarrow> q_grade_scale_id q = Some gid \<Longrightarrow>
   select_scale db gid = Some sc \<Longrightarrow> parse_scale pf (s_definition sc) = [] \<Longrightarrow>
   calculate_student_performance_grade pf db pid sid = Inr None"
  by (simp add: calculate_student_performance_grade_def Let_def)



text \<open>
  Claim C9. For an assessment id in the range of SQLite's integers,
  \<^verbatim>\<open>_calculate_student_performance_grade\<close> returns \<^verbatim>\<open>None\<close> when the assessment is
  unknown or has no scale reference, when the maximum points of its tasks sum to zero
  (whatever points are recorded), and when the referenced scale parses to no band. The
  parsed scale is the list of the lines that parse, in order: a line is left out exactly
  when it does not have three fields or a bound is not a number for \<^verbatim>\<open>float\<close>, and no
  line makes the function fail. The line \<^verbatim>\<open>X;abc;10\<close> is left out, \<^verbatim>\<open>float('abc')\<close> being a
  \<^verbatim>\<open>ValueError\<close>.
\<close>

theorem score_none:
  "(in_int64 pid \<and>
    (select_performance db pid = None \<or>
     (\<exists>q. select_performance db pid = Some q \<and>
          (q_grade_scale_id q = None \<or> q_grade_scale_id q = Some 0)) \<or>
     total_max_points db pid = 0 \<or>
     (\<exists>q gid sc. select_performance db pid = Some q \<and> q_grade_scale_id q = Some gid \<and>
          select_scale db gid = Some sc \<and> parse_scale py_float (s_definition sc) = []))
    \<longrightarrow> calculate_student_performance_grade py_float db pid sid = Inr None) \<and>
   parse_scale py_float scale_text =
     map the (filter (\<lambda>b. b \<noteq> None) (map (scale_line py_float) (splitlines scale_text))) \<and>
   (scale_line py_float line = None \<longleftrightarrow>
      length (split_on CHR '';'' line) \<noteq> 3 \<or>
      py_float (strip (split_on CHR '';'' line ! 1)) = None \<or>
      py_float (strip (split_on CHR '';'' line ! 2)) = None) \<and>
   (py_float ''abc'' = None \<longrightarrow> parse_scale py_float ''X;abc;10'' = [])"
proof -
  have a: "in_int64 pid \<and>
    (select_performance db pid = None \<or>
     (\<exists>q. select_performance db pid = Some q \<and>
          (q_grade_scale_id q = None \<or> q_grade_scale_id q = Some 0)) \<or>
     total_max_points db pid = 0 \<or>
     (\<exists>q gid sc. select_performance db pid = Some q \<and> q_grade_scale_id q = Some gid \<and>
          select_scale db gid = Some sc \<and> parse_scale py_float (s_definition sc) = []))
    \<longrightarrow> calculate_student_performance_grade py_float db pid sid = Inr None"
    using calculate_no_scale[where db=db and pid=pid and pf=py_float and sid=sid]
      calculate_zero_max[where db=db and pid=pid and pf=py_float and sid=sid]
      calculate_no_bands[where db=db and pid=pid and pf=py_float and sid=sid]
    by blast
  have b: "parse_scale py_float scale_text =
     map the (filter (\<lambda>b. b \<noteq> None) (map (scale_line py_float) (splitlines scale_text)))"
    by (simp add: parse_scale_def scale_lines_filter)
  have c: "py_float ''abc'' = None \<longrightarrow> parse_scale py_float ''X;abc;10'' = []"
    by (simp add: parse_scale_def splitlines_def is_linebreak_def scale_line_def strip_def
        is_space_def)
  from a b c scale_line_None[where pf=py_float and line=line] show ?thesis by blast
qed

theorem score_none_witness:
  "in_int64 1 \<and>
   total_max_points ((example_scoring_db ''2.0;79.0;86.0'' None)\<lparr>performance_tasks := []\<rparr>) 1 = 0 \<and>
   calculate_student_performance_grade decimal_real
     ((example_scoring_db ''2.0;79.0;86.0'' None)\<lparr>performance_tasks := []\<rparr>) 1 7 = Inr None \<and>
   calculate_student_performance_grade decimal_real
     ((example_scoring_db ''2.0;79.0;86.0'' None)\<lparr>performance_queries :=
        [\<lparr>q_id = 1, q_grade_scale_id = None\<rparr>]\<rparr>) 1 7 = Inr None \<and>
   decimal_real ''abc'' = None \<and>
   parse_scale decimal_real ''X;abc;10'' = [] \<and>
   calculate_student_performance_grade decimal_real (example_scoring_db ''X;abc;10'' None) 1 7 =
     Inr None"
proof -
  let ?db = "example_scoring_db ''2.0;79.0;86.0'' None"
  have i1: "in_int64 1" by (simp add: in_int64_def)
  have z: "total_max_points (?db\<lparr>performance_tasks := []\<rparr>) 1 = 0"
    by (simp add: scoring_eval)
  have a: "calculate_student_performance_grade decimal_real (?db\<lparr>performance_tasks := []\<rparr>) 1 7 =
      Inr None"
    using score_none[where db="?db\<lparr>performance_tasks := []\<rparr>" and pid=1 and py_float=decimal_real
        and sid=7] i1 z by blast
  have q: "select_performance (?db\<lparr>performance_queries := [\<lparr>q_id = 1, q_grade_scale_id = None\<rparr>]\<rparr>) 1
      = Some \<lparr>q_id = 1, q_grade_scale_id = None\<rparr>"
    by (simp add: scoring_eval)
  have b: "calculate_student_performance_grade decimal_real
     (?db\<lparr>performance_queries := [\<lparr>q_id = 1, q_grade_scale_id = None\<rparr>]\<rparr>) 1 7 = Inr None"
    using score_none[where db="?db\<lparr>performance_queries := [\<lparr>q_id = 1, q_grade_scale_id = None\<rparr>]\<rparr>"
        and pid=1 and py_float=decimal_real and sid=7] i1 q by simp
  have abc: "decimal_real ''abc'' = None" by (simp add: str_eval)
  have p: "parse_scale decimal_real ''X;abc;10'' = []"
    using score_none[where py_float=decimal_real] abc by blast
  let ?dx = "example_scoring_db ''X;abc;10'' None"
  have s: "select_performance ?dx 1 = Some \<lparr>q_id = 1, q_grade_scale_id = Some 1\<rparr>"
    "select_scale ?dx 1 = Some \<lparr>s_id = 1, s_name = ''Scale'', s_definition = ''X;abc;10''\<rparr>"
    by (simp_all add: scoring_eval)
  have c: "calculate_student_performance_grade decimal_real ?dx 1 7 = Inr None"
    using score_none[where db="?dx" and pid=1 and py_float=decimal_real and sid=7] i1 s p by simp
  from i1 z a b abc p c show ?thesis by blast
qed

section \<open>Properties of the CSV import\<close>





















section \<open>The change log\<close>

text \<open>
  None of the three handlers of the override lifecycle and of the score update writes
  to \<^verbatim>\<open>change_log\<close>, whatever the request; the admin page's deletion of a timetable row
  does.
\<close>

lemma update_status_no_log:
  "change_log (snd (post_lesson_update_status sql_int data db)) = change_log db"
  by (simp add: post_lesson_update_status_def Let_def split: option.splits)

lemma uncancel_no_log:
  "change_log (snd (post_lesson_uncancel sql_int data db)) = change_log db"
  by (simp add: post_lesson_uncancel_def split: option.splits)

lemma upsert_task_points_log:
  "change_log (upsert_task_points pid sid k pts db) = change_log db"
  by (simp add: upsert_task_points_def split: option.splits)

lemma update_task_scores_log:
  "update_task_scores pint pf pid sid scores db = Inr db' \<Longrightarrow> change_log db' = change_log db"
proof (induction pint pf pid sid scores db rule: update_task_scores.induct)
  case (1 pint pf pid sid db)
  then show ?case by simp
next
  case (2 pint pf pid sid key v rest db)
  show ?case
  proof (cases "startswith key ''task_''")
    case False
    with 2 show ?thesis by simp
  next
    case True
    note st = True
    show ?thesis
    proof (cases "task_key_number pint key")
      case None
      with 2 st show ?thesis by simp
    next
      case (Some k)
      show ?thesis
      proof (cases "float_of_json pf v")
        case (Inl e)
        with 2 st Some show ?thesis by (cases e) simp_all
      next
        case (Inr pts)
        with 2 st Some show ?thesis
          by (auto simp: upsert_task_points_log split: if_splits)
      qed
    qed
  qed
qed

lemma update_scores_block_log:
  "update_scores_block sr pint pf pid sid scores db = Inr (db', u) \<Longrightarrow>
   change_log db' = change_log db"
  by (auto simp: update_scores_block_def set_op_points_def set_zp_points_def
      update_op_points_def update_zp_points_def
      split: sum.splits option.splits if_splits dest!: update_task_scores_log)

lemma update_scores_no_log:
  "change_log (snd (post_performance_update_student_scores sr pint pf data db)) = change_log db"
  by (auto simp: post_performance_update_student_scores_def
      split: option.splits sum.splits prod.splits dest: update_scores_block_log)

lemma admin_delete_logs:
  "fst (post_admin_timetable_delete pint data db) = Redirect ''/admin/timetable'' \<Longrightarrow>
   length (change_log (snd (post_admin_timetable_delete pint data db))) =
     length (change_log db) + 1"
  by (auto simp: post_admin_timetable_delete_def log_change_def split: option.splits if_splits)

lemmas update_eval = post_performance_update_student_scores_def update_scores_block_def
  set_op_points_def set_zp_points_def update_op_points_def update_zp_points_def to_sql_def
  update_task_scores.simps startswith_def task_key_number_def float_of_json_def
  upsert_task_points_def example_scores_request_def in_int64_def
  calculate_student_performance_grade_def py_round_def

text \<open>
  Claim C6 asks that the audit log's \<^verbatim>\<open>record\<close> be called after every mutating operation
  of the override lifecycle and of the score update. On the example tables:
  \<^verbatim>\<open>_post_lesson_uncancel\<close> deletes override row 2, \<^verbatim>\<open>_post_lesson_update_status\<close> inserts
  an override row, \<^verbatim>\<open>_post_performance_update_student_scores\<close> overwrites the points of
  task 1, and each leaves \<^verbatim>\<open>change_log\<close> empty. \<^verbatim>\<open>_post_admin_timetable_delete\<close>, which
  deletes the same row 2 from the admin page, writes its entry.
\<close>

theorem lifecycle_writes_no_log:
  "post_lesson_uncancel decimal_int [''timetable_id'' \<mapsto> ''2''] example_db =
     (Redirect ''/?msg=Ausfall+wurde+rueckgaengig+gemacht.'',
      example_db\<lparr>timetable := [example_row 1 ''Montag'' 1 0 None]\<rparr>) \<and>
   change_log (snd (post_lesson_uncancel decimal_int [''timetable_id'' \<mapsto> ''2''] example_db)) = [] \<and>
   timetable (snd (post_lesson_update_status decimal_int example_status_form example_db)) =
     timetable example_db @
       [(example_row 3 ''Montag'' 1 0 (Some ''2024-01-15''))\<lparr>t_status := Some ''cancelled''\<rparr>] \<and>
   change_log (snd (post_lesson_update_status decimal_int example_status_form example_db)) = [] \<and>
   map task_fields (performance_task_results (snd
     (post_performance_update_student_scores decimal_real decimal_int decimal_real
        example_scores_request (example_scoring_db ''2.0;79.0;86.0'' None)))) =
     [(1, 7, 1, 9), (1, 7, 2, 7)] \<and>
   change_log (snd
     (post_performance_update_student_scores decimal_real decimal_int decimal_real
        example_scores_request (example_scoring_db ''2.0;79.0;86.0'' None))) = [] \<and>
   change_log (snd (post_admin_timetable_delete decimal_int [''id'' \<mapsto> ''2''] example_db)) =
     [\<lparr>l_id = 1, l_action = Some ''manual'', l_table_name = Some ''timetable'',
       l_record_id = Some 2, l_field_name = Some ''delete'', l_old_value = Some [],
       l_new_value = Some [], l_comment = None\<rparr>]"
proof -
  have a: "post_lesson_uncancel decimal_int [''timetable_id'' \<mapsto> ''2''] example_db =
     (Redirect ''/?msg=Ausfall+wurde+rueckgaengig+gemacht.'',
      example_db\<lparr>timetable := [example_row 1 ''Montag'' 1 0 None]\<rparr>)"
    by (simp add: post_lesson_uncancel_def lifecycle_eval)
  have b: "timetable (snd (post_lesson_update_status decimal_int example_status_form example_db)) =
     timetable example_db @
       [(example_row 3 ''Montag'' 1 0 (Some ''2024-01-15''))\<lparr>t_status := Some ''cancelled''\<rparr>]"
    by (simp add: post_lesson_update_status_def lifecycle_eval)
  have c: "map task_fields (performance_task_results (snd
     (post_performance_update_student_scores decimal_real decimal_int decimal_real
        example_scores_request (example_scoring_db ''2.0;79.0;86.0'' None)))) =
     [(1, 7, 1, 9), (1, 7, 2, 7)]"
    by (simp add: update_eval scoring_eval str_eval task_fields_def decimal_int_def)
  have d: "change_log (snd (post_admin_timetable_delete decimal_int [''id'' \<mapsto> ''2''] example_db)) =
     [\<lparr>l_id = 1, l_action = Some ''manual'', l_table_name = Some ''timetable'',
       l_record_id = Some 2, l_field_name = Some ''delete'', l_old_value = Some [],
       l_new_value = Some [], l_comment = None\<rparr>]"
    by (simp add: post_admin_timetable_delete_def log_change_def in_int64_def lifecycle_eval)
  have e: "change_log example_db = []" "change_log (example_scoring_db ''2.0;79.0;86.0'' None) = []"
    by (simp_all add: example_db_def example_scoring_db_def)
  show ?thesis
    unfolding update_status_no_log uncancel_no_log update_scores_no_log e
    using a b c d by simp
qed

end
